theory Spec2Isabelle
  imports Complex_Main
begin

section \<open>Data model\<close>

text \<open>
  A pandas DataFrame is a list of column labels and a list of rows.  Every column of the
  ENEM microdata has one dtype, so a row is three maps from column labels to nullable
  values: the integer codes (\<open>TP_...\<close>, \<open>CO_...\<close>), the float scores (\<open>NU_NOTA_...\<close>,
  \<open>nota_final\<close>) and the text columns (\<open>SG_UF_ESC\<close>, the names, the derived labels).
  \<open>None\<close> is the null (NaN) cell.  Scores are rationals: rounding of binary floats is
  not modelled.  A \<open>char\<close> stands for a code point below 256, which covers every label
  of the sources.

  What the code raises is a value of \<open>error\<close>; a function that can raise returns
  \<open>error + 'a\<close>, with \<open>Inl\<close> for the exception.
\<close>

datatype error = FileNotFoundError string | KeyError string | ValueError string

record row =
  code_of :: "string \<Rightarrow> int option"
  num_of :: "string \<Rightarrow> rat option"
  txt_of :: "string \<Rightarrow> string option"

record dataframe =
  columns :: "string list"
  rows :: "row list"

text \<open>The folder \<open>data/\<close>: the parsed content of each raw file that exists.\<close>

record filesystem =
  parquet_file :: "dataframe option"
  csv_file :: "dataframe option"

definition bind_e :: "error + 'a \<Rightarrow> ('a \<Rightarrow> error + 'b) \<Rightarrow> error + 'b" where
  "bind_e m f = (case m of Inl e \<Rightarrow> Inl e | Inr x \<Rightarrow> f x)"

subsection \<open>The pandas operations the scripts use\<close>

text \<open>\<open>df[cols]\<close> with a list of labels: KeyError at the first missing label.\<close>

definition restrict_row :: "string list \<Rightarrow> row \<Rightarrow> row" where
  "restrict_row cols r =
     \<lparr>code_of = (\<lambda>c. if c \<in> set cols then code_of r c else None),
      num_of = (\<lambda>c. if c \<in> set cols then num_of r c else None),
      txt_of = (\<lambda>c. if c \<in> set cols then txt_of r c else None)\<rparr>"

definition getitem :: "dataframe \<Rightarrow> string list \<Rightarrow> error + dataframe" where
  "getitem df cols =
     (case find (\<lambda>c. c \<notin> set (columns df)) cols of
        Some c \<Rightarrow> Inl (KeyError c)
      | None \<Rightarrow> Inr \<lparr>columns = cols, rows = map (restrict_row cols) (rows df)\<rparr>)"

text \<open>\<open>df[c]\<close> with one label: the Series of that column, read at its dtype.\<close>

definition col_code :: "dataframe \<Rightarrow> string \<Rightarrow> error + int option list" where
  "col_code df c =
     (if c \<in> set (columns df) then Inr (map (\<lambda>r. code_of r c) (rows df)) else Inl (KeyError c))"

definition col_txt :: "dataframe \<Rightarrow> string \<Rightarrow> error + string option list" where
  "col_txt df c =
     (if c \<in> set (columns df) then Inr (map (\<lambda>r. txt_of r c) (rows df)) else Inl (KeyError c))"

text \<open>\<open>df[c] = series\<close>: the column is overwritten, or appended when it is new.\<close>

definition add_column :: "string list \<Rightarrow> string \<Rightarrow> string list" where
  "add_column cols c = (if c \<in> set cols then cols else cols @ [c])"

definition assign_code :: "dataframe \<Rightarrow> string \<Rightarrow> int option list \<Rightarrow> dataframe" where
  "assign_code df c s =
     \<lparr>columns = add_column (columns df) c,
      rows = map2 (\<lambda>r v. r\<lparr>code_of := (code_of r)(c := v)\<rparr>) (rows df) s\<rparr>"

definition assign_num :: "dataframe \<Rightarrow> string \<Rightarrow> rat option list \<Rightarrow> dataframe" where
  "assign_num df c s =
     \<lparr>columns = add_column (columns df) c,
      rows = map2 (\<lambda>r v. r\<lparr>num_of := (num_of r)(c := v)\<rparr>) (rows df) s\<rparr>"

definition assign_txt :: "dataframe \<Rightarrow> string \<Rightarrow> string option list \<Rightarrow> dataframe" where
  "assign_txt df c s =
     \<lparr>columns = add_column (columns df) c,
      rows = map2 (\<lambda>r v. r\<lparr>txt_of := (txt_of r)(c := v)\<rparr>) (rows df) s\<rparr>"

text \<open>\<open>series.dropna().values\<close>: the non-null values, in order.\<close>

fun dropna_values :: "'a option list \<Rightarrow> 'a list" where
  "dropna_values [] = []"
| "dropna_values (None # vs) = dropna_values vs"
| "dropna_values (Some x # vs) = x # dropna_values vs"

text \<open>
  The mean of pandas skips nulls (\<open>skipna=True\<close>) and is null when nothing is left;
  its sum skips nulls and is 0 when nothing is left.
\<close>

definition nanmean :: "rat option list \<Rightarrow> rat option" where
  "nanmean vs =
     (let xs = dropna_values vs
      in if xs = [] then None else Some (sum_list xs / of_nat (length xs)))"

definition nansum :: "rat option list \<Rightarrow> rat" where
  "nansum vs = sum_list (dropna_values vs)"

text \<open>\<open>sub.mean(axis=1)\<close>: the mean of each row over the columns of \<open>sub\<close>.\<close>

definition mean_axis1 :: "dataframe \<Rightarrow> rat option list" where
  "mean_axis1 sub = map (\<lambda>r. nanmean (map (num_of r) (columns sub))) (rows sub)"

text \<open>\<open>df.dropna(subset=[c])\<close> on a score column and on a code column.\<close>

definition dropna_num :: "dataframe \<Rightarrow> string \<Rightarrow> error + dataframe" where
  "dropna_num df c =
     (if c \<in> set (columns df)
      then Inr (df\<lparr>rows := filter (\<lambda>r. num_of r c \<noteq> None) (rows df)\<rparr>)
      else Inl (KeyError c))"

definition dropna_code :: "dataframe \<Rightarrow> string \<Rightarrow> error + dataframe" where
  "dropna_code df c =
     (if c \<in> set (columns df)
      then Inr (df\<lparr>rows := filter (\<lambda>r. code_of r c \<noteq> None) (rows df)\<rparr>)
      else Inl (KeyError c))"

text \<open>\<open>series.map(d)\<close> with a dict: a null stays null, a key that is not in \<open>d\<close> gives null.\<close>

definition series_map :: "(int \<Rightarrow> string option) \<Rightarrow> int option list \<Rightarrow> string option list" where
  "series_map d s = map (\<lambda>v. case v of None \<Rightarrow> None | Some k \<Rightarrow> d k) s"

text \<open>\<open>series.astype(str)\<close> on a text column: a null becomes the text \<open>nan\<close>.\<close>

definition astype_str :: "string option list \<Rightarrow> string list" where
  "astype_str s = map (\<lambda>v. case v of None \<Rightarrow> ''nan'' | Some t \<Rightarrow> t) s"

section \<open>Record Normalizer: \<open>src/data_loader.py\<close>, \<open>preprocess_enem_df\<close>\<close>

definition DISCIPLINE_OPTIONS_values :: "string list" where
  "DISCIPLINE_OPTIONS_values =
     [''nota_final'', ''NU_NOTA_CN'', ''NU_NOTA_CH'', ''NU_NOTA_LC'', ''NU_NOTA_MT'',
      ''NU_NOTA_REDACAO'']"

definition colunas_notas :: "string list" where
  "colunas_notas =
     [''NU_NOTA_CN'', ''NU_NOTA_CH'', ''NU_NOTA_LC'', ''NU_NOTA_MT'', ''NU_NOTA_REDACAO'']"

definition mapa_dependencia :: "int \<Rightarrow> string option" where
  "mapa_dependencia =
     [1 \<mapsto> ''Federal'', 2 \<mapsto> ''Estadual'', 3 \<mapsto> ''Municipal'', 4 \<mapsto> ''Privada'']"

definition mapa_status :: "int \<Rightarrow> string option" where
  "mapa_status =
     [1 \<mapsto> ''1. Sem Problemas (V'' @ [CHR 0xE1] @ ''lida)'',
      2 \<mapsto> ''2. Anulada'',
      3 \<mapsto> ''3. C'' @ [CHR 0xF3] @ ''pia T. Motivador'',
      4 \<mapsto> ''4. N'' @ [CHR 0xE3] @ ''o Atribu'' @ [CHR 0xED] @ ''da/Em Branco'',
      5 \<mapsto> ''5. Zero por Crit'' @ [CHR 0xE9] @ ''rio (Grave)'',
      6 \<mapsto> ''6. Cancelada'',
      9 \<mapsto> ''7. Outras Causas/Fuga'']"

definition mapa_localizacao :: "int \<Rightarrow> string option" where
  "mapa_localizacao = [1 \<mapsto> ''Urbana'', 2 \<mapsto> ''Rural'']"

text \<open>Lines 79 to 89: the composite score, unless the column is already there.\<close>

definition derive_nota_final :: "dataframe \<Rightarrow> error + dataframe" where
  "derive_nota_final df =
     (if ''nota_final'' \<notin> set (columns df) then
        (let available_cols = filter (\<lambda>c. c \<in> set (columns df)) colunas_notas
         in if available_cols \<noteq> [] then
              bind_e (getitem df available_cols)
                (\<lambda>sub. Inr (assign_num df ''nota_final'' (mean_axis1 sub)))
            else Inr df)
      else Inr df)"

text \<open>Lines 91 and 92.\<close>

definition drop_null_nota_final :: "dataframe \<Rightarrow> error + dataframe" where
  "drop_null_nota_final df =
     (if ''nota_final'' \<in> set (columns df) then dropna_num df ''nota_final'' else Inr df)"

text \<open>Lines 94 to 112: the three label columns, each behind its own test.\<close>

definition map_label ::
  "string \<Rightarrow> string \<Rightarrow> (int \<Rightarrow> string option) \<Rightarrow> dataframe \<Rightarrow> error + dataframe" where
  "map_label src dst d df =
     (if src \<in> set (columns df) then
        bind_e (col_code df src) (\<lambda>s. Inr (assign_txt df dst (series_map d s)))
      else Inr df)"

text \<open>Lines 114 to 119.\<close>

definition derive_municipio_uf :: "dataframe \<Rightarrow> error + dataframe" where
  "derive_municipio_uf df =
     (if {''NO_MUNICIPIO_ESC'', ''SG_UF_ESC''} \<subseteq> set (columns df) then
        bind_e (col_txt df ''NO_MUNICIPIO_ESC'') (\<lambda>m.
        bind_e (col_txt df ''SG_UF_ESC'') (\<lambda>u.
          Inr (assign_txt df ''MUNICIPIO_UF''
                 (map2 (\<lambda>a b. Some (a @ '' - '' @ b)) (astype_str m) (astype_str u)))))
      else Inr df)"

text \<open>
  Lines 121 and 122: \<open>astype("Int64")\<close> changes the storage of an integer code column,
  not its values.
\<close>

definition cast_co_uf_esc :: "dataframe \<Rightarrow> error + dataframe" where
  "cast_co_uf_esc df =
     (if ''CO_UF_ESC'' \<in> set (columns df) then
        bind_e (col_code df ''CO_UF_ESC'') (\<lambda>s. Inr (assign_code df ''CO_UF_ESC'' s))
      else Inr df)"

text \<open>
  Lines 124 to 127: the two loops run over the columns that \<open>select_dtypes\<close> finds in
  the frame, and narrow their storage.  Over the rationals and the integers that is the
  identity.
\<close>

definition downcast_numeric :: "dataframe \<Rightarrow> dataframe" where
  "downcast_numeric df = df"

definition preprocess_enem_df :: "dataframe \<Rightarrow> error + dataframe" where
  "preprocess_enem_df df0 =
     bind_e (derive_nota_final df0) (\<lambda>df1.
     bind_e (drop_null_nota_final df1) (\<lambda>df2.
     bind_e (map_label ''TP_DEPENDENCIA_ADM_ESC'' ''TIPO_ESCOLA'' mapa_dependencia df2) (\<lambda>df3.
     bind_e (map_label ''TP_STATUS_REDACAO'' ''STATUS_REDACAO'' mapa_status df3) (\<lambda>df4.
     bind_e (map_label ''TP_LOCALIZACAO_ESC'' ''LOCALIZACAO'' mapa_localizacao df4) (\<lambda>df5.
     bind_e (derive_municipio_uf df5) (\<lambda>df6.
     bind_e (cast_co_uf_esc df6) (\<lambda>df7.
       Inr (downcast_numeric df7))))))))"

text \<open>
  The composite score of a record as the specification words it: the unweighted mean of
  the subject scores that the record has and that are not null, null when there is none.
  \<open>cols\<close> are the columns of the raw table.
\<close>

definition composite_score :: "string list \<Rightarrow> row \<Rightarrow> rat option" where
  "composite_score cols r =
     (let present = filter (\<lambda>c. c \<in> set cols \<and> num_of r c \<noteq> None) colunas_notas
      in if present = [] then None
         else Some (sum_list (map (\<lambda>c. the (num_of r c)) present) / of_nat (length present)))"

text \<open>\<open>load_raw_enem\<close>, the same in the three scripts that have it.\<close>

definition msg_no_raw_file :: string where
  "msg_no_raw_file =
     ''Coloque RESULTADOS_2024.csv ou RESULTADOS_2024.parquet na pasta 'data/'.''"

definition load_raw_enem :: "filesystem \<Rightarrow> error + dataframe" where
  "load_raw_enem fs =
     (case parquet_file fs of
        Some df \<Rightarrow> Inr df
      | None \<Rightarrow>
          (case csv_file fs of
             Some df \<Rightarrow> Inr df
           | None \<Rightarrow> Inl (FileNotFoundError msg_no_raw_file)))"

text \<open>
  The first two steps of \<open>main\<close> in \<open>preprocess_enem.py\<close>, \<open>preprocess_redacao.py\<close> and
  \<open>preprocess_schools.py\<close>: load, then normalize.  (\<open>preprocess_map_uf.py\<close> has a loader of
  its own, which reads the parquet file only; it is not modelled.)
\<close>

definition normalize :: "filesystem \<Rightarrow> error + dataframe" where
  "normalize fs = bind_e (load_raw_enem fs) preprocess_enem_df"

section \<open>Grouping\<close>

text \<open>
  The three grouping dimensions of \<open>group_cols\<close>, read from a normalized row.  A key is
  null when one of its values is.
\<close>

type_synonym group_key = "string option \<times> string option \<times> string option"

definition group_cols :: "string list" where
  "group_cols = [''TIPO_ESCOLA'', ''LOCALIZACAO'', ''SG_UF_ESC'']"

definition group_key :: "row \<Rightarrow> group_key" where
  "group_key r = (txt_of r ''TIPO_ESCOLA'', txt_of r ''LOCALIZACAO'', txt_of r ''SG_UF_ESC'')"

definition key_isnull :: "group_key \<Rightarrow> bool" where
  "key_isnull k = (case k of (a, b, c) \<Rightarrow> a = None \<or> b = None \<or> c = None)"

text \<open>
  \<open>rows.groupby(cols, dropna=...)\<close>: with \<open>dropna=True\<close>, which is the default of pandas,
  the rows with a null key are left out before the groups are formed; then there is one
  group for each key that occurs, holding the rows of that key in their order.  pandas
  returns the groups sorted by key; the model does not sort them, and no property below
  reads the order of the groups.
\<close>

definition groupby :: "bool \<Rightarrow> ('k \<Rightarrow> bool) \<Rightarrow> (row \<Rightarrow> 'k) \<Rightarrow> row list \<Rightarrow> ('k \<times> row list) list" where
  "groupby dropna isnull key rs =
     (let kept = (if dropna then filter (\<lambda>r. \<not> isnull (key r)) rs else rs)
      in map (\<lambda>k. (k, filter (\<lambda>r. key r = k) kept)) (remdups (map key kept)))"

text \<open>A lookup of a column that the frame lacks raises KeyError, at the first one.\<close>

definition require_cols :: "dataframe \<Rightarrow> string list \<Rightarrow> error + unit" where
  "require_cols df cols =
     (case find (\<lambda>c. c \<notin> set (columns df)) cols of
        Some c \<Rightarrow> Inl (KeyError c)
      | None \<Rightarrow> Inr ())"

section \<open>Dimensional Aggregator: \<open>preprocess_enem.py\<close>, \<open>build_overview_stats\<close>\<close>

text \<open>
  A row of \<open>overview_stats.parquet\<close>: the three dimension columns (\<open>s_key\<close>), the column
  \<open>n\<close> (\<open>s_n\<close>) and the columns \<open>sum_<metric>\<close> with their labels (\<open>s_sums\<close>).  The function
  returns the table it writes.
\<close>

record summary_row =
  s_key :: group_key
  s_n :: nat
  s_sums :: "(string \<times> rat) list"

definition build_overview_stats :: "dataframe \<Rightarrow> string list \<Rightarrow> error + summary_row list" where
  "build_overview_stats df metric_cols =
     bind_e (require_cols df (group_cols @ [''nota_final''] @ metric_cols)) (\<lambda>_.
       Inr (map (\<lambda>(k, sub).
                  \<lparr>s_key = k,
                   s_n = length sub,
                   s_sums = map (\<lambda>col. (''sum_'' @ col, nansum (map (\<lambda>r. num_of r col) sub)))
                              metric_cols\<rparr>)
              (groupby True key_isnull group_key (rows df))))"

section \<open>Histogram Builder: \<open>preprocess_enem.py\<close>, \<open>build_overview_hist\<close>\<close>

text \<open>\<open>np.linspace(start, stop, num)\<close>: \<open>num\<close> points, \<open>start + i * step\<close>.\<close>

definition linspace :: "rat \<Rightarrow> rat \<Rightarrow> nat \<Rightarrow> rat list" where
  "linspace start stop m =
     map (\<lambda>i. start + of_nat i * ((stop - start) / of_nat (m - 1))) [0..<m]"

definition bin_edges :: "rat list" where
  "bin_edges = linspace 0 1000 41"

definition bin_left :: "rat list" where
  "bin_left = butlast bin_edges"

definition bin_right :: "rat list" where
  "bin_right = tl bin_edges"

text \<open>
  \<open>np.histogram(a, bins=edges)\<close> with an array of edges sorts the values and locates
  every edge in them: \<open>searchsorted(..., 'left')\<close> for all edges but the last, which is
  the number of values below the edge, and \<open>searchsorted(..., 'right')\<close> for the last
  edge, which is the number of values up to it.  The counts are the differences of
  neighbouring positions (\<open>np.diff\<close>).
\<close>

definition searchsorted_left :: "rat list \<Rightarrow> rat \<Rightarrow> int" where
  "searchsorted_left a e = int (length (filter (\<lambda>v. v < e) a))"

definition searchsorted_right :: "rat list \<Rightarrow> rat \<Rightarrow> int" where
  "searchsorted_right a e = int (length (filter (\<lambda>v. v \<le> e) a))"

fun np_diff :: "int list \<Rightarrow> int list" where
  "np_diff (x # y # zs) = (y - x) # np_diff (y # zs)"
| "np_diff _ = []"

definition np_histogram :: "rat list \<Rightarrow> rat list \<Rightarrow> int list" where
  "np_histogram a edges =
     np_diff (map (searchsorted_left a) (butlast edges)
              @ map (searchsorted_right a) (drop (length edges - 1) edges))"

text \<open>
  \<open>for i, count in enumerate(counts): if count == 0: continue\<close>: the bins that reach the
  body of the loop.
\<close>

definition nonzero_bins :: "rat list \<Rightarrow> (nat \<times> int) list" where
  "nonzero_bins vals =
     filter (\<lambda>(i, count). count \<noteq> 0) (enumerate 0 (np_histogram vals bin_edges))"

record hist_row =
  h_key :: group_key
  h_metric :: string
  h_bin_idx :: nat
  h_bin_left :: rat
  h_bin_right :: rat
  h_count :: int

text \<open>Lines 75 to 94, for one group and one metric.\<close>

definition metric_records :: "group_key \<Rightarrow> string \<Rightarrow> rat list \<Rightarrow> hist_row list" where
  "metric_records dims metric vals =
     (if length vals = 0 then []
      else map (\<lambda>(i, count).
                 \<lparr>h_key = dims, h_metric = metric, h_bin_idx = i,
                  h_bin_left = bin_left ! i, h_bin_right = bin_right ! i,
                  h_count = count\<rparr>)
             (nonzero_bins vals))"

text \<open>
  \<open>dims\<close> is read from the first row of the group (\<open>iloc[0]\<close>); a group is never empty.
  A metric column is looked up inside the loop over the groups, so a missing one raises
  only when there is a group.
\<close>

definition build_overview_hist :: "dataframe \<Rightarrow> string list \<Rightarrow> error + hist_row list" where
  "build_overview_hist df metric_cols =
     bind_e (require_cols df group_cols) (\<lambda>_.
       let groups = groupby True key_isnull group_key (rows df)
       in bind_e (if groups = [] then Inr () else require_cols df metric_cols) (\<lambda>_.
            Inr (concat (map (\<lambda>(k, sub).
                   concat (map (\<lambda>metric.
                             metric_records (group_key (hd sub)) metric
                               (dropna_values (map (\<lambda>r. num_of r metric) sub)))
                           metric_cols))
                 groups))))"

text \<open>\<open>main\<close> of \<open>preprocess_enem.py\<close>; it returns the two tables it writes.\<close>

definition cols_base :: "string list" where
  "cols_base = [''TIPO_ESCOLA'', ''LOCALIZACAO'', ''SG_UF_ESC'']"

definition main_enem :: "filesystem \<Rightarrow> error + (summary_row list \<times> hist_row list)" where
  "main_enem fs =
     bind_e (load_raw_enem fs) (\<lambda>raw.
     bind_e (preprocess_enem_df raw) (\<lambda>df.
       let metric_cols = filter (\<lambda>c. c \<in> set (columns df)) DISCIPLINE_OPTIONS_values;
           needed_cols = cols_base @ metric_cols
       in bind_e (getitem df needed_cols) (\<lambda>df1.
          bind_e (dropna_num df1 ''nota_final'') (\<lambda>df2.
          bind_e (build_overview_stats df2 metric_cols) (\<lambda>stats.
          bind_e (build_overview_hist df2 metric_cols) (\<lambda>hist.
            Inr (stats, hist)))))))"

section \<open>Essay pipeline: \<open>preprocess_redacao.py\<close>\<close>

record redacao_stats_row =
  rs_key :: group_key
  rs_n :: nat
  sum_redacao :: rat
  n_zero :: nat
  n_900mais :: nat
  media_redacao :: rat

record redacao_hist_row =
  rh_key :: group_key
  rh_bin_idx :: nat
  rh_bin_left :: rat
  rh_bin_right :: rat
  rh_count :: int

text \<open>Lines 34 to 42: the statistics table, grouped with \<open>dropna=False\<close>.\<close>

definition redacao_stats :: "dataframe \<Rightarrow> redacao_stats_row list" where
  "redacao_stats df =
     map (\<lambda>(k, sub).
           let s = map (\<lambda>r. num_of r ''NU_NOTA_REDACAO'') sub
           in \<lparr>rs_key = k,
               rs_n = length sub,
               sum_redacao = nansum s,
               n_zero = length (filter (\<lambda>v. v = Some 0) s),
               n_900mais = length (filter (\<lambda>v. case v of None \<Rightarrow> False | Some x \<Rightarrow> 900 \<le> x) s),
               media_redacao = nansum s / of_nat (length sub)\<rparr>)
         (groupby False key_isnull group_key (rows df))"

text \<open>Lines 51 to 83: the histogram table, grouped with the default \<open>dropna=True\<close>.\<close>

definition redacao_records :: "group_key \<Rightarrow> rat list \<Rightarrow> redacao_hist_row list" where
  "redacao_records dims vals =
     (if length vals = 0 then []
      else map (\<lambda>(i, count).
                 \<lparr>rh_key = dims, rh_bin_idx = i,
                  rh_bin_left = bin_left ! i, rh_bin_right = bin_right ! i,
                  rh_count = count\<rparr>)
             (nonzero_bins vals))"

definition redacao_hist :: "dataframe \<Rightarrow> redacao_hist_row list" where
  "redacao_hist df =
     concat (map (\<lambda>(k, sub).
                   redacao_records (group_key (hd sub))
                     (dropna_values (map (\<lambda>r. num_of r ''NU_NOTA_REDACAO'') sub)))
                 (groupby True key_isnull group_key (rows df)))"

definition msg_no_redacao :: string where
  "msg_no_redacao = ''Coluna NU_NOTA_REDACAO n'' @ [CHR 0xE3] @ ''o encontrada na base.''"

definition main_redacao ::
  "filesystem \<Rightarrow> error + (redacao_stats_row list \<times> redacao_hist_row list)" where
  "main_redacao fs =
     bind_e (load_raw_enem fs) (\<lambda>raw.
     bind_e (preprocess_enem_df raw) (\<lambda>df.
       if ''NU_NOTA_REDACAO'' \<notin> set (columns df) then Inl (ValueError msg_no_redacao)
       else
         bind_e (getitem df (group_cols @ [''NU_NOTA_REDACAO''])) (\<lambda>df1.
         bind_e (dropna_num df1 ''NU_NOTA_REDACAO'') (\<lambda>df2.
           Inr (redacao_stats df2, redacao_hist df2)))))"

section \<open>School-Level Aggregator: \<open>preprocess_schools.py\<close>\<close>

text \<open>\<open>METRIC_COLUMNS = sorted(set(DISCIPLINE_OPTIONS.values()))\<close>, written out.\<close>

definition METRIC_COLUMNS :: "string list" where
  "METRIC_COLUMNS =
     [''NU_NOTA_CH'', ''NU_NOTA_CN'', ''NU_NOTA_LC'', ''NU_NOTA_MT'', ''NU_NOTA_REDACAO'',
      ''nota_final'']"

definition id_candidates :: "string list" where
  "id_candidates = [''CO_ESCOLA'', ''ID_ESCOLA'', ''COD_ESCOLA'', ''ESCOLA_ID'', ''CO_ENTIDADE'']"

definition name_candidates :: "string list" where
  "name_candidates = [''NO_ESCOLA'', ''NOME_ESCOLA'', ''NM_ESCOLA'']"

definition msg_no_school_id :: string where
  "msg_no_school_id =
     ''N'' @ [CHR 0xE3] @ ''o consegui identificar a coluna de ID da escola.'' @ [CHR 0x0A]
     @ ''Verifique na sua base o nome real (ex.: CO_ESCOLA, CO_ENTIDADE) ''
     @ ''e adicione em _detect_school_cols().''"

text \<open>
  \<open>_detect_school_cols\<close>: \<open>next((c for c in candidates if c in df.columns), None)\<close> is the
  first candidate that is a column, or \<open>None\<close>.
\<close>

definition detect_school_cols :: "dataframe \<Rightarrow> error + (string \<times> string option)" where
  "detect_school_cols df =
     (case find (\<lambda>c. c \<in> set (columns df)) id_candidates of
        None \<Rightarrow> Inl (ValueError msg_no_school_id)
      | Some school_id_col \<Rightarrow>
          Inr (school_id_col, find (\<lambda>c. c \<in> set (columns df)) name_candidates))"

text \<open>
  The message of the check of lines 40 to 50 ends with the set of missing columns, whose
  print order Python does not fix; the model keeps the fixed part.
\<close>

definition msg_missing_columns :: string where
  "msg_missing_columns =
     ''Colunas faltando na base para o pr'' @ [CHR 0xE9] @ ''-processamento da Aba 3 ''
     @ ''(j'' @ [CHR 0xE1] @ '' ap'' @ [CHR 0xF3] @ ''s preprocess_enem_df):''"

text \<open>
  The key of a school group: the identifier, the name (null throughout when no name
  column was detected, and then the table has no \<open>school_name\<close> column), and the three
  dimensions.  The identifier is an integer code of the microdata.
\<close>

type_synonym school_key = "int option \<times> string option \<times> group_key"

definition school_key :: "string \<Rightarrow> string option \<Rightarrow> row \<Rightarrow> school_key" where
  "school_key school_id_col school_name_col r =
     (code_of r school_id_col,
      (case school_name_col of None \<Rightarrow> None | Some c \<Rightarrow> txt_of r c),
      group_key r)"

text \<open>
  A row of \<open>schools_stats.parquet\<close>: \<open>school_id\<close>, \<open>school_name\<close> and the dimensions
  (\<open>sc_key\<close>), \<open>n_participantes\<close>, and the columns \<open>media_<metric>\<close> with their labels.
\<close>

record school_row =
  sc_key :: school_key
  n_participantes :: nat
  medias :: "(string \<times> rat option) list"

text \<open>Lines 62 to 86, on the normalized frame and the detected columns.\<close>

definition aggregate_schools :: "dataframe \<Rightarrow> string \<Rightarrow> string option \<Rightarrow> error + school_row list" where
  "aggregate_schools df0 school_id_col school_name_col =
     bind_e (dropna_code df0 school_id_col) (\<lambda>df.
       Inr (map (\<lambda>(k, sub).
                  \<lparr>sc_key = k,
                   n_participantes = length sub,
                   medias = map (\<lambda>col. (''media_'' @ col, nanmean (map (\<lambda>r. num_of r col) sub)))
                              (filter (\<lambda>col. col \<in> set (columns df)) METRIC_COLUMNS)\<rparr>)
              (groupby False (\<lambda>k. False) (school_key school_id_col school_name_col) (rows df))))"

definition main_schools :: "filesystem \<Rightarrow> error + school_row list" where
  "main_schools fs =
     bind_e (load_raw_enem fs) (\<lambda>df_raw.
     bind_e (preprocess_enem_df df_raw) (\<lambda>df.
       let required_all =
             {''TIPO_ESCOLA'', ''LOCALIZACAO'', ''SG_UF_ESC'', ''nota_final''} \<union> set METRIC_COLUMNS;
           missing = required_all - set (columns df)
       in if missing \<noteq> {} then Inl (ValueError msg_missing_columns)
          else bind_e (detect_school_cols df) (\<lambda>(school_id_col, school_name_col).
                 aggregate_schools df school_id_col school_name_col)))"

section \<open>Longitudinal Reshaper: \<open>preprocess_ideb.py\<close>\<close>

















section \<open>Example inputs\<close>

text \<open>
  A raw table with the two code columns, the region, a school identifier and the five
  subject scores, and records for it.
\<close>

definition raw_columns :: "string list" where
  "raw_columns =
     [''TP_DEPENDENCIA_ADM_ESC'', ''TP_LOCALIZACAO_ESC'', ''SG_UF_ESC'', ''CO_ESCOLA'',
      ''NU_NOTA_CN'', ''NU_NOTA_CH'', ''NU_NOTA_LC'', ''NU_NOTA_MT'', ''NU_NOTA_REDACAO'']"

definition raw_record :: "int \<Rightarrow> int \<Rightarrow> string \<Rightarrow> int \<Rightarrow> rat option list \<Rightarrow> row" where
  "raw_record dep loc uf school scores =
     \<lparr>code_of = [''TP_DEPENDENCIA_ADM_ESC'' \<mapsto> dep, ''TP_LOCALIZACAO_ESC'' \<mapsto> loc,
                 ''CO_ESCOLA'' \<mapsto> school],
      num_of = (\<lambda>c. case map_of (zip colunas_notas scores) c of None \<Rightarrow> None | Some v \<Rightarrow> v),
      txt_of = [''SG_UF_ESC'' \<mapsto> uf]\<rparr>"

text \<open>The three records of the end-to-end example of the specification.\<close>

definition example_raw :: dataframe where
  "example_raw =
     \<lparr>columns = raw_columns,
      rows = [raw_record 1 1 ''DF'' 11 [Some 500, Some 600, Some 700, Some 800, Some 900],
              raw_record 4 2 ''SP'' 12 [None, None, None, None, None],
              raw_record 2 1 ''DF'' 13 [Some 300, Some 300, Some 300, Some 300, Some 300]]\<rparr>"

text \<open>A table with none of the columns that the normalizer reads.\<close>

definition bare_raw :: dataframe where
  "bare_raw =
     \<lparr>columns = [''NU_INSCRICAO''],
      rows = [\<lparr>code_of = [''NU_INSCRICAO'' \<mapsto> 1], num_of = Map.empty, txt_of = Map.empty\<rparr>]\<rparr>"

section \<open>Notions and inputs used in the properties\<close>

text \<open>A step of the normalizer that leaves the scores and the score columns alone.\<close>

definition keeps_scores :: "dataframe \<Rightarrow> dataframe \<Rightarrow> bool" where
  "keeps_scores df df' =
     (map num_of (rows df') = map num_of (rows df) \<and>
      (''nota_final'' \<in> set (columns df')) = (''nota_final'' \<in> set (columns df)) \<and>
      (''NU_NOTA_REDACAO'' \<in> set (columns df')) = (''NU_NOTA_REDACAO'' \<in> set (columns df)))"

text \<open>
  Bin \<open>i\<close> as the specification words it: from \<open>25 i\<close> up to, but not including,
  \<open>25 (i + 1)\<close>, and the last bin closed at 1000.
\<close>

definition in_bin :: "nat \<Rightarrow> rat \<Rightarrow> bool" where
  "in_bin i v = (25 * of_nat i \<le> v \<and> (v < 25 * of_nat (i + 1) \<or> (i = 39 \<and> v = 1000)))"

text \<open>The non-null values of a metric in the rows of a group.\<close>

definition group_values :: "dataframe \<Rightarrow> group_key \<Rightarrow> string \<Rightarrow> rat list" where
  "group_values df k metric =
     dropna_values (map (\<lambda>r. num_of r metric) (filter (\<lambda>r. group_key r = k) (rows df)))"

text \<open>The positions of the edges that \<open>np_histogram\<close> takes the differences of.\<close>

definition cum_n :: "rat list \<Rightarrow> int list" where
  "cum_n vs = map (searchsorted_left vs) (butlast bin_edges)
              @ map (searchsorted_right vs) (drop (length bin_edges - 1) bin_edges)"

text \<open>The keys of the groups that the builders loop over.\<close>

definition group_keys :: "dataframe \<Rightarrow> group_key list" where
  "group_keys df = map fst (groupby True key_isnull group_key (rows df))"

text \<open>Normalized records and tables for the histogram builders.\<close>

definition norm_record ::
  "string option \<Rightarrow> string option \<Rightarrow> string option \<Rightarrow> (string \<times> rat option) list \<Rightarrow> row" where
  "norm_record tipo loc uf scores =
     \<lparr>code_of = Map.empty,
      num_of = (\<lambda>c. case map_of scores c of None \<Rightarrow> None | Some v \<Rightarrow> v),
      txt_of = (\<lambda>c. if c = ''TIPO_ESCOLA'' then tipo else if c = ''LOCALIZACAO'' then loc
                     else if c = ''SG_UF_ESC'' then uf else None)\<rparr>"

definition hist_example :: dataframe where
  "hist_example =
     \<lparr>columns = [''TIPO_ESCOLA'', ''LOCALIZACAO'', ''SG_UF_ESC'', ''nota_final'', ''NU_NOTA_REDACAO''],
      rows = [norm_record (Some ''Federal'') (Some ''Urbana'') (Some ''DF'')
                [(''nota_final'', Some 700), (''NU_NOTA_REDACAO'', Some 900)],
              norm_record (Some ''Federal'') (Some ''Urbana'') (Some ''DF'')
                [(''nota_final'', Some 710), (''NU_NOTA_REDACAO'', None)],
              norm_record (Some ''Estadual'') (Some ''Urbana'') (Some ''DF'')
                [(''nota_final'', Some 300), (''NU_NOTA_REDACAO'', Some 1000)]]\<rparr>"

text \<open>The histogram rows of \<open>hist_example\<close>, overview and essay.\<close>

definition hist_example_rows :: "hist_row list" where
  "hist_example_rows =
     [\<lparr>h_key = (Some ''Federal'', Some ''Urbana'', Some ''DF''), h_metric = ''nota_final'',
       h_bin_idx = 28, h_bin_left = 700, h_bin_right = 725, h_count = 2\<rparr>,
      \<lparr>h_key = (Some ''Federal'', Some ''Urbana'', Some ''DF''), h_metric = ''NU_NOTA_REDACAO'',
       h_bin_idx = 36, h_bin_left = 900, h_bin_right = 925, h_count = 1\<rparr>,
      \<lparr>h_key = (Some ''Estadual'', Some ''Urbana'', Some ''DF''), h_metric = ''nota_final'',
       h_bin_idx = 12, h_bin_left = 300, h_bin_right = 325, h_count = 1\<rparr>,
      \<lparr>h_key = (Some ''Estadual'', Some ''Urbana'', Some ''DF''), h_metric = ''NU_NOTA_REDACAO'',
       h_bin_idx = 39, h_bin_left = 975, h_bin_right = 1000, h_count = 1\<rparr>]"

definition redacao_example_rows :: "redacao_hist_row list" where
  "redacao_example_rows =
     [\<lparr>rh_key = (Some ''Federal'', Some ''Urbana'', Some ''DF''),
       rh_bin_idx = 36, rh_bin_left = 900, rh_bin_right = 925, rh_count = 1\<rparr>,
      \<lparr>rh_key = (Some ''Estadual'', Some ''Urbana'', Some ''DF''),
       rh_bin_idx = 39, rh_bin_left = 975, rh_bin_right = 1000, rh_count = 1\<rparr>]"

text \<open>
  Two records of one region, of network codes 1 and 5, the files that hold them, and the
  tables that the pipelines return for them.
\<close>

definition code5_raw :: dataframe where
  "code5_raw =
     \<lparr>columns = raw_columns,
      rows = [raw_record 1 1 ''DF'' 11 [Some 500, Some 600, Some 700, Some 800, Some 900],
              raw_record 5 1 ''DF'' 14 [Some 400, Some 400, Some 400, Some 400, Some 400]]\<rparr>"

definition code5_fs :: filesystem where
  "code5_fs = \<lparr>parquet_file = Some code5_raw, csv_file = None\<rparr>"

definition code5_stats :: "summary_row list" where
  "code5_stats =
     [\<lparr>s_key = (Some ''Federal'', Some ''Urbana'', Some ''DF''), s_n = 1,
       s_sums = [(''sum_nota_final'', 700), (''sum_NU_NOTA_CN'', 500), (''sum_NU_NOTA_CH'', 600),
                 (''sum_NU_NOTA_LC'', 700), (''sum_NU_NOTA_MT'', 800),
                 (''sum_NU_NOTA_REDACAO'', 900)]\<rparr>]"

definition federal_bin :: "string \<Rightarrow> nat \<Rightarrow> hist_row" where
  "federal_bin metric i =
     \<lparr>h_key = (Some ''Federal'', Some ''Urbana'', Some ''DF''), h_metric = metric, h_bin_idx = i,
      h_bin_left = 25 * of_nat i, h_bin_right = 25 * of_nat (i + 1), h_count = 1\<rparr>"

definition code5_hist :: "hist_row list" where
  "code5_hist =
     [federal_bin ''nota_final'' 28, federal_bin ''NU_NOTA_CN'' 20, federal_bin ''NU_NOTA_CH'' 24,
      federal_bin ''NU_NOTA_LC'' 28, federal_bin ''NU_NOTA_MT'' 32,
      federal_bin ''NU_NOTA_REDACAO'' 36]"

definition code5_redacao_stats :: "redacao_stats_row list" where
  "code5_redacao_stats =
     [\<lparr>rs_key = (Some ''Federal'', Some ''Urbana'', Some ''DF''), rs_n = 1,
       sum_redacao = 900, n_zero = 0, n_900mais = 1, media_redacao = 900\<rparr>,
      \<lparr>rs_key = (None, Some ''Urbana'', Some ''DF''), rs_n = 1,
       sum_redacao = 400, n_zero = 0, n_900mais = 0, media_redacao = 400\<rparr>]"

definition code5_redacao_hist :: "redacao_hist_row list" where
  "code5_redacao_hist =
     [\<lparr>rh_key = (Some ''Federal'', Some ''Urbana'', Some ''DF''),
       rh_bin_idx = 36, rh_bin_left = 900, rh_bin_right = 925, rh_count = 1\<rparr>]"













section \<open>Properties\<close>

subsection \<open>Lists, errors, columns\<close>

lemma map2_same: "map2 f xs (map g xs) = map (\<lambda>x. f x (g x)) xs"
  by (induction xs) auto

lemma map2_map_map: "map2 f (map g xs) (map h xs) = map (\<lambda>x. f (g x) (h x)) xs"
  by (induction xs) auto

lemma bind_e_Inr [simp]: "bind_e (Inr x) f = f x"
  by (simp add: bind_e_def)

lemma bind_e_Inl [simp]: "bind_e (Inl e) f = Inl e"
  by (simp add: bind_e_def)

lemma find_present_None: "find (\<lambda>c. c \<notin> set cols) (filter (\<lambda>c. c \<in> set cols) cs) = None"
  by (simp add: find_None_iff)

lemma getitem_available:
  "getitem df (filter (\<lambda>c. c \<in> set (columns df)) cs) =
     Inr \<lparr>columns = filter (\<lambda>c. c \<in> set (columns df)) cs,
          rows = map (restrict_row (filter (\<lambda>c. c \<in> set (columns df)) cs)) (rows df)\<rparr>"
  by (simp add: getitem_def find_present_None)

lemma map_num_of_restrict: "map (num_of (restrict_row cols r)) cols = map (num_of r) cols"
  by (simp add: restrict_row_def)

lemma dropna_values_map:
  "dropna_values (map f cs) = map (\<lambda>c. the (f c)) (filter (\<lambda>c. f c \<noteq> None) cs)"
  by (induction cs) auto

lemma nanmean_available:
  "nanmean (map (num_of r) (filter (\<lambda>c. c \<in> set cols) colunas_notas)) = composite_score cols r"
proof -
  have "filter (\<lambda>c. num_of r c \<noteq> None) (filter (\<lambda>c. c \<in> set cols) colunas_notas)
        = filter (\<lambda>c. c \<in> set cols \<and> num_of r c \<noteq> None) colunas_notas"
    by (simp add: conj_commute)
  then show ?thesis
    by (simp add: nanmean_def composite_score_def dropna_values_map Let_def)
qed

lemma mean_axis1_available:
  "mean_axis1 \<lparr>columns = filter (\<lambda>c. c \<in> set cols) colunas_notas,
               rows = map (restrict_row (filter (\<lambda>c. c \<in> set cols) colunas_notas)) rs\<rparr>
   = map (composite_score cols) rs"
proof -
  have "nanmean (map (num_of (restrict_row (filter (\<lambda>c. c \<in> set cols) colunas_notas) r))
                  (filter (\<lambda>c. c \<in> set cols) colunas_notas)) = composite_score cols r" for r
    by (simp only: map_num_of_restrict nanmean_available)
  then show ?thesis
    by (simp add: mean_axis1_def o_def)
qed

lemma derive_nota_final_eq:
  "derive_nota_final df =
     Inr (if ''nota_final'' \<notin> set (columns df) \<and> filter (\<lambda>c. c \<in> set (columns df)) colunas_notas \<noteq> []
          then \<lparr>columns = columns df @ [''nota_final''],
                rows = map (\<lambda>r. r\<lparr>num_of := (num_of r)(''nota_final'' := composite_score (columns df) r)\<rparr>) (rows df)\<rparr>
          else df)"
  by (simp add: derive_nota_final_def Let_def getitem_available assign_num_def add_column_def
      mean_axis1_available map2_same o_def)

lemma drop_null_nota_final_eq:
  "drop_null_nota_final df =
     Inr (if ''nota_final'' \<in> set (columns df)
          then df\<lparr>rows := filter (\<lambda>r. num_of r ''nota_final'' \<noteq> None) (rows df)\<rparr> else df)"
  by (simp add: drop_null_nota_final_def dropna_num_def)

lemma keeps_scores_refl: "keeps_scores df df"
  by (simp add: keeps_scores_def)

lemma keeps_scores_trans: "keeps_scores a b \<Longrightarrow> keeps_scores b c \<Longrightarrow> keeps_scores a c"
  by (simp add: keeps_scores_def)

lemma map_label_keeps:
  assumes "dst \<noteq> ''nota_final''" and "dst \<noteq> ''NU_NOTA_REDACAO''"
  shows "\<exists>df'. map_label src dst d df = Inr df' \<and> keeps_scores df df'"
  using assms
  by (simp add: map_label_def col_code_def assign_txt_def series_map_def map2_same
      keeps_scores_def add_column_def o_def)

lemma derive_municipio_uf_keeps:
  "\<exists>df'. derive_municipio_uf df = Inr df' \<and> keeps_scores df df'"
  by (simp add: derive_municipio_uf_def col_txt_def assign_txt_def astype_str_def map2_map_map
      map2_same keeps_scores_def add_column_def o_def)

lemma cast_co_uf_esc_keeps:
  "\<exists>df'. cast_co_uf_esc df = Inr df' \<and> keeps_scores df df'"
  by (simp add: cast_co_uf_esc_def col_code_def assign_code_def map2_same
      keeps_scores_def add_column_def o_def)

lemma labels_keep:
  "\<exists>df'. bind_e (map_label ''TP_DEPENDENCIA_ADM_ESC'' ''TIPO_ESCOLA'' mapa_dependencia df2) (\<lambda>df3.
     bind_e (map_label ''TP_STATUS_REDACAO'' ''STATUS_REDACAO'' mapa_status df3) (\<lambda>df4.
     bind_e (map_label ''TP_LOCALIZACAO_ESC'' ''LOCALIZACAO'' mapa_localizacao df4) (\<lambda>df5.
     bind_e (derive_municipio_uf df5) (\<lambda>df6.
     bind_e (cast_co_uf_esc df6) (\<lambda>df7.
       Inr (downcast_numeric df7)))))) = Inr df' \<and> keeps_scores df2 df'"
proof -
  obtain df3 where 3: "map_label ''TP_DEPENDENCIA_ADM_ESC'' ''TIPO_ESCOLA'' mapa_dependencia df2 = Inr df3"
    "keeps_scores df2 df3"
    using map_label_keeps [of "''TIPO_ESCOLA''"] by fastforce
  obtain df4 where 4: "map_label ''TP_STATUS_REDACAO'' ''STATUS_REDACAO'' mapa_status df3 = Inr df4"
    "keeps_scores df3 df4"
    using map_label_keeps [of "''STATUS_REDACAO''"] by fastforce
  obtain df5 where 5: "map_label ''TP_LOCALIZACAO_ESC'' ''LOCALIZACAO'' mapa_localizacao df4 = Inr df5"
    "keeps_scores df4 df5"
    using map_label_keeps [of "''LOCALIZACAO''"] by fastforce
  obtain df6 where 6: "derive_municipio_uf df5 = Inr df6" "keeps_scores df5 df6"
    using derive_municipio_uf_keeps by blast
  obtain df7 where 7: "cast_co_uf_esc df6 = Inr df7" "keeps_scores df6 df7"
    using cast_co_uf_esc_keeps by blast
  have "keeps_scores df2 df7"
    using 3 4 5 6 7 keeps_scores_trans by blast
  then show ?thesis
    using 3 4 5 6 7 by (simp add: downcast_numeric_def)
qed

lemma preprocess_enem_df_scores:
  "\<exists>df'. preprocess_enem_df df = Inr df' \<and>
     (if ''nota_final'' \<in> set (columns df) then
        map num_of (rows df') = map num_of (filter (\<lambda>r. num_of r ''nota_final'' \<noteq> None) (rows df)) \<and>
        ''nota_final'' \<in> set (columns df')
      else if filter (\<lambda>c. c \<in> set (columns df)) colunas_notas \<noteq> [] then
        map num_of (rows df') =
          map (\<lambda>r. (num_of r)(''nota_final'' := composite_score (columns df) r))
            (filter (\<lambda>r. composite_score (columns df) r \<noteq> None) (rows df)) \<and>
        ''nota_final'' \<in> set (columns df')
      else map num_of (rows df') = map num_of (rows df) \<and> ''nota_final'' \<notin> set (columns df')) \<and>
     (''NU_NOTA_REDACAO'' \<in> set (columns df') \<longleftrightarrow> ''NU_NOTA_REDACAO'' \<in> set (columns df))"
proof -
  obtain df1 where 1: "derive_nota_final df = Inr df1"
    and df1: "df1 = (if ''nota_final'' \<notin> set (columns df) \<and> filter (\<lambda>c. c \<in> set (columns df)) colunas_notas \<noteq> []
          then \<lparr>columns = columns df @ [''nota_final''],
                rows = map (\<lambda>r. r\<lparr>num_of := (num_of r)(''nota_final'' := composite_score (columns df) r)\<rparr>) (rows df)\<rparr>
          else df)"
    using derive_nota_final_eq by blast
  obtain df2 where 2: "drop_null_nota_final df1 = Inr df2"
    and df2: "df2 = (if ''nota_final'' \<in> set (columns df1)
          then df1\<lparr>rows := filter (\<lambda>r. num_of r ''nota_final'' \<noteq> None) (rows df1)\<rparr> else df1)"
    using drop_null_nota_final_eq by blast
  obtain df' where 3: "preprocess_enem_df df = Inr df'" and k: "keeps_scores df2 df'"
    using labels_keep [of df2] 1 2 by (auto simp: preprocess_enem_df_def)
  have "map num_of (rows df2) = (if ''nota_final'' \<in> set (columns df) then
         map num_of (filter (\<lambda>r. num_of r ''nota_final'' \<noteq> None) (rows df))
      else if filter (\<lambda>c. c \<in> set (columns df)) colunas_notas \<noteq> [] then
          map (\<lambda>r. (num_of r)(''nota_final'' := composite_score (columns df) r))
            (filter (\<lambda>r. composite_score (columns df) r \<noteq> None) (rows df))
      else map num_of (rows df))"
    unfolding df2 df1 by (simp add: filter_map o_def)
  moreover have "''NU_NOTA_REDACAO'' \<in> set (columns df2) \<longleftrightarrow> ''NU_NOTA_REDACAO'' \<in> set (columns df)"
    unfolding df2 df1 by auto
  moreover have "''nota_final'' \<in> set (columns df2) \<longleftrightarrow>
     ''nota_final'' \<in> set (columns df) \<or> filter (\<lambda>c. c \<in> set (columns df)) colunas_notas \<noteq> []"
    unfolding df2 df1 by auto
  ultimately show ?thesis
    using 3 k by (auto simp: keeps_scores_def)
qed

lemma list_all_nota_final:
  assumes "map num_of rs' = map num_of (filter (\<lambda>r. num_of r c \<noteq> None) rs)"
  shows "list_all (\<lambda>r. num_of r c \<noteq> None) rs'"
proof -
  have "list_all (\<lambda>f. f c \<noteq> None) (map num_of (filter (\<lambda>r. num_of r c \<noteq> None) rs))"
    by (simp add: list_all_iff)
  then have "list_all (\<lambda>f. f c \<noteq> None) (map num_of rs')"
    using assms by simp
  then show ?thesis
    by (simp add: list_all_iff)
qed

lemma list_all_composite:
  assumes "map num_of rs' = map (\<lambda>r. (num_of r)(c := g r)) (filter (\<lambda>r. g r \<noteq> None) rs)"
  shows "list_all (\<lambda>r. num_of r c \<noteq> None) rs'"
proof -
  have "list_all (\<lambda>f. f c \<noteq> None) (map (\<lambda>r. (num_of r)(c := g r)) (filter (\<lambda>r. g r \<noteq> None) rs))"
    by (simp add: list_all_iff)
  then have "list_all (\<lambda>f. f c \<noteq> None) (map num_of rs')"
    using assms by simp
  then show ?thesis
    by (simp add: list_all_iff)
qed

lemma getitem_columns: "getitem df cols = Inr df1 \<Longrightarrow> columns df1 = cols"
  by (auto simp: getitem_def split: option.splits)

lemma main_enem_without_nota_final:
  assumes "load_raw_enem fs = Inr df" and "preprocess_enem_df df = Inr df'"
    and "''nota_final'' \<notin> set (columns df')"
  shows "\<exists>e. main_enem fs = Inl e"
proof (cases "getitem df' (cols_base @ filter (\<lambda>c. c \<in> set (columns df')) DISCIPLINE_OPTIONS_values)")
  case (Inl e)
  then show ?thesis
    using assms by (simp add: main_enem_def Let_def)
next
  case (Inr df1)
  then have "''nota_final'' \<notin> set (columns df1)"
    using assms(3) getitem_columns [OF Inr] by (simp add: cols_base_def)
  then have "dropna_num df1 ''nota_final'' = Inl (KeyError ''nota_final'')"
    by (simp add: dropna_num_def)
  then show ?thesis
    using assms Inr by (simp add: main_enem_def Let_def)
qed

lemma main_schools_without_nota_final:
  assumes "load_raw_enem fs = Inr df" and "preprocess_enem_df df = Inr df'"
    and "''nota_final'' \<notin> set (columns df')"
  shows "main_schools fs = Inl (ValueError msg_missing_columns)"
proof -
  have "''nota_final'' \<in> ({''TIPO_ESCOLA'', ''LOCALIZACAO'', ''SG_UF_ESC'', ''nota_final''}
          \<union> set METRIC_COLUMNS) - set (columns df')"
    using assms(3) by simp
  then have "({''TIPO_ESCOLA'', ''LOCALIZACAO'', ''SG_UF_ESC'', ''nota_final''}
          \<union> set METRIC_COLUMNS) - set (columns df') \<noteq> {}"
    by blast
  then show ?thesis
    using assms(1,2) by (simp add: main_schools_def Let_def)
qed

lemma main_redacao_without_redacao:
  assumes "load_raw_enem fs = Inr df" and "preprocess_enem_df df = Inr df'"
    and "''NU_NOTA_REDACAO'' \<notin> set (columns df')"
  shows "main_redacao fs = Inl (ValueError msg_no_redacao)"
  using assms by (simp add: main_redacao_def)

text \<open>
  Claim C6.  The normalizer never fails, and on the scores it does the following.  When
  the raw table has a \<open>nota_final\<close> column, nothing is derived: the rows that are kept are
  those whose \<open>nota_final\<close> is not null, with their scores unchanged.  When it has none but
  has a subject-score column, the rows that are kept are those with a non-null composite
  score, and their \<open>nota_final\<close> is that score: the unweighted mean of the subject scores
  that are not null in the record.  In both cases no row of the result has a null
  \<open>nota_final\<close>.  When the result has no \<open>nota_final\<close> column at all (the raw table has
  neither it nor a subject score), the mains of \<open>preprocess_enem.py\<close>,
  \<open>preprocess_schools.py\<close> and \<open>preprocess_redacao.py\<close> stop with an error, so no record
  reaches an aggregate.
\<close>

theorem composite_score_derived_then_nulls_dropped:
  "\<exists>df'. preprocess_enem_df df = Inr df' \<and>
     (''nota_final'' \<in> set (columns df) \<longrightarrow>
        ''nota_final'' \<in> set (columns df') \<and>
        map num_of (rows df') = map num_of (filter (\<lambda>r. num_of r ''nota_final'' \<noteq> None) (rows df))) \<and>
     (''nota_final'' \<notin> set (columns df) \<and> filter (\<lambda>c. c \<in> set (columns df)) colunas_notas \<noteq> [] \<longrightarrow>
        ''nota_final'' \<in> set (columns df') \<and>
        map num_of (rows df') =
          map (\<lambda>r. (num_of r)(''nota_final'' := composite_score (columns df) r))
            (filter (\<lambda>r. composite_score (columns df) r \<noteq> None) (rows df))) \<and>
     (''nota_final'' \<in> set (columns df') \<longrightarrow>
        list_all (\<lambda>r. num_of r ''nota_final'' \<noteq> None) (rows df')) \<and>
     (''nota_final'' \<notin> set (columns df') \<longrightarrow>
        (\<forall>fs. load_raw_enem fs = Inr df \<longrightarrow>
           (\<exists>e. main_enem fs = Inl e) \<and> (\<exists>e. main_schools fs = Inl e) \<and>
           (\<exists>e. main_redacao fs = Inl e)))"
proof -
  let ?avail = "filter (\<lambda>c. c \<in> set (columns df)) colunas_notas"
  obtain df' where p: "preprocess_enem_df df = Inr df'"
    and c: "if ''nota_final'' \<in> set (columns df) then
        map num_of (rows df') = map num_of (filter (\<lambda>r. num_of r ''nota_final'' \<noteq> None) (rows df)) \<and>
        ''nota_final'' \<in> set (columns df')
      else if ?avail \<noteq> [] then
        map num_of (rows df') =
          map (\<lambda>r. (num_of r)(''nota_final'' := composite_score (columns df) r))
            (filter (\<lambda>r. composite_score (columns df) r \<noteq> None) (rows df)) \<and>
        ''nota_final'' \<in> set (columns df')
      else map num_of (rows df') = map num_of (rows df) \<and> ''nota_final'' \<notin> set (columns df')"
    and r: "''NU_NOTA_REDACAO'' \<in> set (columns df') \<longleftrightarrow> ''NU_NOTA_REDACAO'' \<in> set (columns df)"
    using preprocess_enem_df_scores [of df] by blast
  have 1: "''nota_final'' \<in> set (columns df) \<longrightarrow>
        ''nota_final'' \<in> set (columns df') \<and>
        map num_of (rows df') = map num_of (filter (\<lambda>r. num_of r ''nota_final'' \<noteq> None) (rows df))"
    using c by simp
  have 2: "''nota_final'' \<notin> set (columns df) \<and> ?avail \<noteq> [] \<longrightarrow>
        ''nota_final'' \<in> set (columns df') \<and>
        map num_of (rows df') =
          map (\<lambda>r. (num_of r)(''nota_final'' := composite_score (columns df) r))
            (filter (\<lambda>r. composite_score (columns df) r \<noteq> None) (rows df))"
    using c by simp
  have 3: "''nota_final'' \<in> set (columns df') \<longrightarrow>
        list_all (\<lambda>r. num_of r ''nota_final'' \<noteq> None) (rows df')"
  proof
    assume in': "''nota_final'' \<in> set (columns df')"
    show "list_all (\<lambda>r. num_of r ''nota_final'' \<noteq> None) (rows df')"
    proof (cases "''nota_final'' \<in> set (columns df)")
      case True
      then have "map num_of (rows df') =
          map num_of (filter (\<lambda>r. num_of r ''nota_final'' \<noteq> None) (rows df))"
        using c by simp
      then show ?thesis by (rule list_all_nota_final)
    next
      case False
      then have "?avail \<noteq> []" using c in' by auto
      then have "map num_of (rows df') =
          map (\<lambda>r. (num_of r)(''nota_final'' := composite_score (columns df) r))
            (filter (\<lambda>r. composite_score (columns df) r \<noteq> None) (rows df))"
        using c False by simp
      then show ?thesis by (rule list_all_composite)
    qed
  qed
  have 4: "''nota_final'' \<notin> set (columns df') \<longrightarrow>
        (\<forall>fs. load_raw_enem fs = Inr df \<longrightarrow>
           (\<exists>e. main_enem fs = Inl e) \<and> (\<exists>e. main_schools fs = Inl e) \<and>
           (\<exists>e. main_redacao fs = Inl e))"
  proof (intro impI allI)
    fix fs
    assume out: "''nota_final'' \<notin> set (columns df')" and l: "load_raw_enem fs = Inr df"
    have "?avail = []" using c out by (auto split: if_splits)
    then have "''NU_NOTA_REDACAO'' \<notin> set (columns df)"
      by (auto simp: colunas_notas_def split: if_splits)
    then have "''NU_NOTA_REDACAO'' \<notin> set (columns df')" using r by simp
    then show "(\<exists>e. main_enem fs = Inl e) \<and> (\<exists>e. main_schools fs = Inl e) \<and>
           (\<exists>e. main_redacao fs = Inl e)"
      using main_enem_without_nota_final [OF l p out] main_schools_without_nota_final [OF l p out]
        main_redacao_without_redacao [OF l p] by simp
  qed
  show ?thesis using p 1 2 3 4 by blast
qed

subsection \<open>The normalizer on concrete tables\<close>

lemma example_avail:
  "filter (\<lambda>c. c \<in> set (columns example_raw)) colunas_notas = colunas_notas"
  by (simp add: example_raw_def raw_columns_def colunas_notas_def)

lemma example_composites:
  "map (composite_score (columns example_raw)) (rows example_raw) = [Some 700, None, Some 300]"
  by (simp add: example_raw_def raw_columns_def composite_score_def colunas_notas_def raw_record_def)

theorem composite_score_example_witness:
  "\<exists>df'. preprocess_enem_df example_raw = Inr df' \<and>
     ''nota_final'' \<in> set (columns df') \<and>
     map (\<lambda>r. num_of r ''nota_final'') (rows df') = [Some 700, Some 300] \<and>
     list_all (\<lambda>r. num_of r ''nota_final'' \<noteq> None) (rows df')"
proof -
  have h: "''nota_final'' \<notin> set (columns example_raw) \<and>
           filter (\<lambda>c. c \<in> set (columns example_raw)) colunas_notas \<noteq> []"
    by (simp add: example_raw_def raw_columns_def colunas_notas_def)
  obtain df' where p: "preprocess_enem_df example_raw = Inr df'"
    and c: "''nota_final'' \<in> set (columns df')"
    and m: "map num_of (rows df') =
          map (\<lambda>r. (num_of r)(''nota_final'' := composite_score (columns example_raw) r))
            (filter (\<lambda>r. composite_score (columns example_raw) r \<noteq> None) (rows example_raw))"
    and a: "list_all (\<lambda>r. num_of r ''nota_final'' \<noteq> None) (rows df')"
    using composite_score_derived_then_nulls_dropped [of example_raw] h by blast
  have "map (\<lambda>r. num_of r ''nota_final'') (rows df') = map (\<lambda>f. f ''nota_final'') (map num_of (rows df'))"
    by (simp add: o_def)
  also have "\<dots> = map (composite_score (columns example_raw))
                    (filter (\<lambda>r. composite_score (columns example_raw) r \<noteq> None) (rows example_raw))"
    unfolding m by (simp add: o_def)
  also have "\<dots> = filter (\<lambda>v. v \<noteq> None) (map (composite_score (columns example_raw)) (rows example_raw))"
    by (simp add: filter_map o_def)
  also have "\<dots> = [Some 700, Some 300]"
    unfolding example_composites by simp
  finally have "map (\<lambda>r. num_of r ''nota_final'') (rows df') = [Some 700, Some 300]" .
  with p c a show ?thesis by (intro exI [of _ df']) simp
qed

text \<open>
  Claim C7.  \<open>preprocess_enem_df\<close> returns a table for every input table, whatever
  columns it has, and each derivation leaves the table as it is when its source column is
  absent: the composite score, the three label columns (\<open>map_label\<close> is the step of the
  network type, the essay status and the locale), the municipality-region text and the
  cast of the region code; the downcast only visits columns that exist.  Loading and
  normalizing fails exactly when neither the parquet file nor the csv file exists, and
  then with \<open>FileNotFoundError\<close>.
\<close>

theorem normalizer_raises_only_without_raw_file:
  "(\<exists>df'. preprocess_enem_df df = Inr df') \<and>
   (''nota_final'' \<notin> set (columns df) \<and> set colunas_notas \<inter> set (columns df) = {} \<longrightarrow>
      derive_nota_final df = Inr df) \<and>
   (''nota_final'' \<notin> set (columns df) \<longrightarrow> drop_null_nota_final df = Inr df) \<and>
   (src \<notin> set (columns df) \<longrightarrow> map_label src dst d df = Inr df) \<and>
   (''NO_MUNICIPIO_ESC'' \<notin> set (columns df) \<or> ''SG_UF_ESC'' \<notin> set (columns df) \<longrightarrow>
      derive_municipio_uf df = Inr df) \<and>
   (''CO_UF_ESC'' \<notin> set (columns df) \<longrightarrow> cast_co_uf_esc df = Inr df) \<and>
   ((\<exists>e. normalize fs = Inl e) \<longleftrightarrow> parquet_file fs = None \<and> csv_file fs = None) \<and>
   (parquet_file fs = None \<and> csv_file fs = None \<longrightarrow>
      normalize fs = Inl (FileNotFoundError msg_no_raw_file))"
proof -
  have 1: "\<exists>df'. preprocess_enem_df df = Inr df'" for df
    using preprocess_enem_df_scores [of df] by blast
  have 2: "''nota_final'' \<notin> set (columns df) \<and> set colunas_notas \<inter> set (columns df) = {} \<longrightarrow>
      derive_nota_final df = Inr df"
  proof
    assume a: "''nota_final'' \<notin> set (columns df) \<and> set colunas_notas \<inter> set (columns df) = {}"
    then have "filter (\<lambda>c. c \<in> set (columns df)) colunas_notas = []"
      by (auto simp: filter_empty_conv)
    then show "derive_nota_final df = Inr df"
      by (simp add: derive_nota_final_eq)
  qed
  have 3: "''nota_final'' \<notin> set (columns df) \<longrightarrow> drop_null_nota_final df = Inr df"
    by (simp add: drop_null_nota_final_def)
  have 4: "src \<notin> set (columns df) \<longrightarrow> map_label src dst d df = Inr df"
    by (simp add: map_label_def)
  have 5: "''NO_MUNICIPIO_ESC'' \<notin> set (columns df) \<or> ''SG_UF_ESC'' \<notin> set (columns df) \<longrightarrow>
      derive_municipio_uf df = Inr df"
    by (auto simp: derive_municipio_uf_def)
  have 6: "''CO_UF_ESC'' \<notin> set (columns df) \<longrightarrow> cast_co_uf_esc df = Inr df"
    by (simp add: cast_co_uf_esc_def)
  have 7: "(\<exists>e. normalize fs = Inl e) \<longleftrightarrow> parquet_file fs = None \<and> csv_file fs = None"
  proof (cases "load_raw_enem fs")
    case (Inl e)
    then show ?thesis
      by (auto simp: normalize_def load_raw_enem_def split: option.splits)
  next
    case (Inr raw)
    obtain df' where "preprocess_enem_df raw = Inr df'" using 1 by blast
    then show ?thesis using Inr
      by (auto simp: normalize_def load_raw_enem_def split: option.splits)
  qed
  have 8: "parquet_file fs = None \<and> csv_file fs = None \<longrightarrow>
      normalize fs = Inl (FileNotFoundError msg_no_raw_file)"
    by (simp add: normalize_def load_raw_enem_def)
  show ?thesis using 1 2 3 4 5 6 7 8 by blast
qed

theorem normalizer_bare_table_witness:
  "preprocess_enem_df bare_raw = Inr bare_raw \<and>
   normalize \<lparr>parquet_file = None, csv_file = Some bare_raw\<rparr> = Inr bare_raw \<and>
   normalize \<lparr>parquet_file = None, csv_file = None\<rparr> = Inl (FileNotFoundError msg_no_raw_file)"
proof -
  have c: "columns bare_raw = [''NU_INSCRICAO'']"
    by (simp add: bare_raw_def)
  note t = normalizer_raises_only_without_raw_file
    [of bare_raw "''TP_DEPENDENCIA_ADM_ESC''" "''TIPO_ESCOLA''" mapa_dependencia
        "\<lparr>parquet_file = None, csv_file = None\<rparr>"]
  have n: "normalize \<lparr>parquet_file = None, csv_file = None\<rparr> = Inl (FileNotFoundError msg_no_raw_file)"
    using t by simp
  have d: "derive_nota_final bare_raw = Inr bare_raw"
    using t by (simp add: c colunas_notas_def)
  have m: "src \<notin> set (columns bare_raw) \<Longrightarrow> map_label src dst d bare_raw = Inr bare_raw" for src dst d
    using normalizer_raises_only_without_raw_file [of bare_raw src dst d] by blast
  have p: "preprocess_enem_df bare_raw = Inr bare_raw"
    using t d by (simp add: preprocess_enem_df_def c m downcast_numeric_def)
  then show ?thesis using n
    by (simp add: normalize_def load_raw_enem_def)
qed

subsection \<open>The bins\<close>

lemma bin_edges_eq: "bin_edges = map (\<lambda>i. 25 * of_nat i) [0..<41]"
  by (simp add: bin_edges_def linspace_def)

lemma length_bin_edges: "length bin_edges = 41"
  by (simp add: bin_edges_eq)

lemma nth_bin_edges: "j < 41 \<Longrightarrow> bin_edges ! j = 25 * of_nat j"
  unfolding bin_edges_eq by (simp only: nth_map length_upt nth_upt) simp

lemma nth_bin_left: "i < 40 \<Longrightarrow> bin_left ! i = 25 * of_nat i"
  by (simp add: bin_left_def nth_butlast length_bin_edges nth_bin_edges)

lemma nth_bin_right: "i < 40 \<Longrightarrow> bin_right ! i = 25 * of_nat (i + 1)"
  by (simp add: bin_right_def nth_tl length_bin_edges nth_bin_edges)

subsection \<open>Differences of neighbours\<close>

lemma length_np_diff: "length (np_diff xs) = length xs - 1"
  by (induction xs rule: np_diff.induct) auto

lemma nth_np_diff: "i + 1 < length xs \<Longrightarrow> np_diff xs ! i = xs ! (i + 1) - xs ! i"
proof (induction xs arbitrary: i rule: np_diff.induct)
  case (1 x y zs)
  then show ?case by (cases i) auto
qed auto

lemma sum_list_np_diff: "xs \<noteq> [] \<Longrightarrow> sum_list (np_diff xs) = last xs - hd xs"
  by (induction xs rule: np_diff.induct) auto

subsection \<open>Counting between two edges\<close>

lemma count_between:
  "a \<le> b \<Longrightarrow> searchsorted_left vs b - searchsorted_left vs a
     = int (length (filter (\<lambda>v. a \<le> v \<and> v < b) vs))"
  unfolding searchsorted_left_def by (induction vs) auto

lemma count_between_closed:
  "a \<le> b \<Longrightarrow> searchsorted_right vs b - searchsorted_left vs a
     = int (length (filter (\<lambda>v. a \<le> v \<and> v \<le> b) vs))"
  unfolding searchsorted_left_def searchsorted_right_def by (induction vs) auto

lemma drop_bin_edges: "drop (length bin_edges - 1) bin_edges = [1000]"
  by (simp add: bin_edges_eq drop_map)

lemma np_histogram_cum_n: "np_histogram vs bin_edges = np_diff (cum_n vs)"
  by (simp add: np_histogram_def cum_n_def)

lemma length_cum_n: "length (cum_n vs) = 41"
  unfolding cum_n_def drop_bin_edges by (simp add: length_bin_edges)

lemma nth_cum_n_left: "j < 40 \<Longrightarrow> cum_n vs ! j = searchsorted_left vs (25 * of_nat j)"
  by (simp add: cum_n_def nth_append length_bin_edges nth_butlast nth_bin_edges)

lemma nth_cum_n_last: "cum_n vs ! 40 = searchsorted_right vs 1000"
  unfolding cum_n_def drop_bin_edges by (simp add: nth_append length_bin_edges)

lemma length_np_histogram: "length (np_histogram vs bin_edges) = 40"
  by (simp add: np_histogram_cum_n length_np_diff length_cum_n)

lemma nth_np_histogram:
  assumes "i < 40"
  shows "np_histogram vs bin_edges ! i = int (length (filter (in_bin i) vs))"
proof -
  have d: "np_histogram vs bin_edges ! i = cum_n vs ! (i + 1) - cum_n vs ! i"
    using assms by (simp add: np_histogram_cum_n nth_np_diff length_cum_n)
  show ?thesis
  proof (cases "i = 39")
    case True
    have "in_bin 39 = (\<lambda>v. 975 \<le> v \<and> v \<le> 1000)"
      by (auto simp: in_bin_def fun_eq_iff)
    moreover have "cum_n vs ! 40 - cum_n vs ! 39
        = int (length (filter (\<lambda>v. 975 \<le> v \<and> v \<le> 1000) vs))"
      using count_between_closed [of 975 1000 vs] by (simp add: nth_cum_n_left nth_cum_n_last)
    ultimately show ?thesis using d True by simp
  next
    case False
    then have i: "i + 1 < 40" using assms by simp
    have "in_bin i = (\<lambda>v. 25 * of_nat i \<le> v \<and> v < 25 * of_nat (i + 1))"
      using False by (auto simp: in_bin_def fun_eq_iff)
    moreover have "cum_n vs ! (i + 1) - cum_n vs ! i
        = int (length (filter (\<lambda>v. 25 * of_nat i \<le> v \<and> v < 25 * of_nat (i + 1)) vs))"
      using count_between [of "25 * of_nat i" "25 * of_nat (i + 1)" vs] assms i
      by (simp add: nth_cum_n_left)
    ultimately show ?thesis using d by simp
  qed
qed

lemma sum_list_np_histogram:
  "sum_list (np_histogram vs bin_edges) = int (length (filter (\<lambda>v. 0 \<le> v \<and> v \<le> 1000) vs))"
proof -
  have ne: "cum_n vs \<noteq> []"
    using length_cum_n [of vs] by auto
  have "last (cum_n vs) = cum_n vs ! 40"
    using ne by (simp add: last_conv_nth length_cum_n)
  moreover have "hd (cum_n vs) = cum_n vs ! 0"
    using ne by (simp add: hd_conv_nth)
  ultimately have "sum_list (np_diff (cum_n vs)) = searchsorted_right vs 1000 - searchsorted_left vs 0"
    using sum_list_np_diff [OF ne] nth_cum_n_left [of 0 vs] by (simp add: nth_cum_n_last)
  then show ?thesis
    using count_between_closed [of 0 1000 vs] by (simp add: np_histogram_cum_n)
qed

subsection \<open>The bins that are emitted\<close>

lemma nonzero_bins_iff:
  "(i, c) \<in> set (nonzero_bins vs) \<longleftrightarrow>
     i < 40 \<and> c = int (length (filter (in_bin i) vs)) \<and> c \<noteq> 0"
  by (auto simp: nonzero_bins_def in_set_enumerate_eq length_np_histogram nth_np_histogram)

lemma sum_list_skip_zero:
  "sum_list (map snd (filter (\<lambda>(i, c). c \<noteq> (0::int)) ps)) = sum_list (map snd ps)"
  by (induction ps) auto

lemma sum_list_nonzero_bins:
  "sum_list (map snd (nonzero_bins vs)) = int (length (filter (\<lambda>v. 0 \<le> v \<and> v \<le> 1000) vs))"
  by (simp add: nonzero_bins_def sum_list_skip_zero sum_list_np_histogram)

subsection \<open>Groups\<close>

lemma filter_key_kept:
  assumes "\<not> isnull k"
  shows "filter (\<lambda>r. key r = k) (filter (\<lambda>r. \<not> isnull (key r)) rs) = filter (\<lambda>r. key r = k) rs"
  using assms by (induction rs) auto

lemma groupby_True_iff:
  "(k, sub) \<in> set (groupby True isnull key rs) \<longleftrightarrow>
     k \<in> key ` set rs \<and> \<not> isnull k \<and> sub = filter (\<lambda>r. key r = k) rs"
proof -
  let ?kept = "filter (\<lambda>r. \<not> isnull (key r)) rs"
  have "set (groupby True isnull key rs) = (\<lambda>k. (k, filter (\<lambda>r. key r = k) ?kept)) ` key ` set ?kept"
    by (simp add: groupby_def Let_def del: filter_filter)
  then have "(k, sub) \<in> set (groupby True isnull key rs) \<longleftrightarrow>
      k \<in> key ` set ?kept \<and> sub = filter (\<lambda>r. key r = k) ?kept"
    by (auto simp add: image_iff simp del: filter_filter)
  moreover have "k \<in> key ` set ?kept \<longleftrightarrow> k \<in> key ` set rs \<and> \<not> isnull k"
    by auto
  ultimately show ?thesis
    using filter_key_kept [of isnull k key rs] by auto
qed

lemma groupby_False_iff:
  "(k, sub) \<in> set (groupby False isnull key rs) \<longleftrightarrow>
     k \<in> key ` set rs \<and> sub = filter (\<lambda>r. key r = k) rs"
  by (auto simp: groupby_def Let_def)

lemma distinct_groupby: "distinct (map fst (groupby dropna isnull key rs))"
  by (simp add: groupby_def Let_def o_def)

lemma key_hd_group:
  assumes "k \<in> key ` set rs"
  shows "key (hd (filter (\<lambda>r. key r = k) rs)) = k"
proof -
  have "filter (\<lambda>r. key r = k) rs \<noteq> []"
    using assms by (auto simp: filter_empty_conv)
  then have "hd (filter (\<lambda>r. key r = k) rs) \<in> set (filter (\<lambda>r. key r = k) rs)"
    by (rule hd_in_set)
  then show ?thesis by simp
qed

lemma filter_concat_tagged:
  assumes "distinct xs" and "\<And>y r. y \<in> set xs \<Longrightarrow> r \<in> set (f y) \<Longrightarrow> tag r = y"
  shows "filter (\<lambda>r. tag r = x) (concat (map f xs)) = (if x \<in> set xs then f x else [])"
  using assms
proof (induction xs)
  case Nil
  then show ?case by simp
next
  case (Cons a xs)
  have tl: "filter (\<lambda>r. tag r = x) (concat (map f xs)) = (if x \<in> set xs then f x else [])"
    using Cons by simp
  show ?case
  proof (cases "a = x")
    case True
    have "filter (\<lambda>r. tag r = x) (f a) = f a"
      using Cons.prems(2) [of a] True by (simp add: filter_id_conv)
    moreover have "x \<notin> set xs" using Cons.prems(1) True by simp
    ultimately show ?thesis using tl True by simp
  next
    case False
    have "filter (\<lambda>r. tag r = x) (f a) = []"
      using Cons.prems(2) [of a] False by (auto simp: filter_empty_conv)
    then show ?thesis using tl False by simp
  qed
qed

subsection \<open>The rows of the overview histogram\<close>

lemma nonzero_bins_Nil: "nonzero_bins [] = []"
proof -
  have "(i, c) \<notin> set (nonzero_bins [])" for i c
    by (simp add: nonzero_bins_iff)
  then show ?thesis by (cases "nonzero_bins []") auto
qed

lemma metric_records_eq:
  "metric_records k m vs =
     map (\<lambda>(i, c). \<lparr>h_key = k, h_metric = m, h_bin_idx = i, h_bin_left = bin_left ! i,
                     h_bin_right = bin_right ! i, h_count = c\<rparr>) (nonzero_bins vs)"
  by (cases vs) (simp_all add: metric_records_def nonzero_bins_Nil)

lemma metric_records_tags:
  "r \<in> set (metric_records k m vs) \<Longrightarrow> h_key r = k \<and> h_metric r = m"
  by (auto simp: metric_records_eq)

lemma sum_list_metric_records:
  "sum_list (map h_count (metric_records k m vs)) = int (length (filter (\<lambda>v. 0 \<le> v \<and> v \<le> 1000) vs))"
proof -
  have "map h_count (metric_records k m vs) = map snd (nonzero_bins vs)"
    by (auto simp: metric_records_eq)
  then show ?thesis by (simp add: sum_list_nonzero_bins)
qed

lemma set_group_keys: "k \<in> set (group_keys df) \<longleftrightarrow> k \<in> group_key ` set (rows df) \<and> \<not> key_isnull k"
proof -
  have "k \<in> set (group_keys df) \<longleftrightarrow> (\<exists>sub. (k, sub) \<in> set (groupby True key_isnull group_key (rows df)))"
    by (force simp: group_keys_def)
  then show ?thesis by (simp add: groupby_True_iff)
qed

lemma distinct_group_keys: "distinct (group_keys df)"
  by (simp add: group_keys_def distinct_groupby)

lemma overview_hist_records:
  assumes "build_overview_hist df mc = Inr recs"
  shows "recs = concat (map (\<lambda>k. concat (map (\<lambda>m. metric_records k m (group_values df k m)) mc))
                         (group_keys df))"
proof -
  let ?groups = "groupby True key_isnull group_key (rows df)"
  let ?G = "\<lambda>(k, sub). concat (map (\<lambda>metric.
                             metric_records (group_key (hd sub)) metric
                               (dropna_values (map (\<lambda>r. num_of r metric) sub))) mc)"
  have "recs = concat (map ?G ?groups)"
    using assms by (auto simp: build_overview_hist_def bind_e_def Let_def split: sum.splits if_splits)
  moreover have "map ?G ?groups
      = map (\<lambda>g. concat (map (\<lambda>m. metric_records (fst g) m (group_values df (fst g) m)) mc)) ?groups"
  proof (rule map_cong [OF refl])
    fix g assume g: "g \<in> set ?groups"
    obtain k sub where ks: "g = (k, sub)" by (cases g)
    then have "k \<in> group_key ` set (rows df)" and sub: "sub = filter (\<lambda>r. group_key r = k) (rows df)"
      using g by (simp_all add: groupby_True_iff)
    then have "group_key (hd sub) = k" by (simp add: key_hd_group)
    then show "?G g = concat (map (\<lambda>m. metric_records (fst g) m (group_values df (fst g) m)) mc)"
      by (simp add: ks sub group_values_def)
  qed
  ultimately show ?thesis
    by (simp add: group_keys_def o_def)
qed

lemma overview_hist_member:
  assumes "build_overview_hist df mc = Inr recs" and "r \<in> set recs"
  shows "\<exists>i. i < 40 \<and> h_bin_idx r = i \<and> h_bin_left r = bin_left ! i \<and> h_bin_right r = bin_right ! i \<and>
             h_count r = int (length (filter (in_bin i) (group_values df (h_key r) (h_metric r)))) \<and>
             h_count r \<noteq> 0"
proof -
  obtain k m where "r \<in> set (metric_records k m (group_values df k m))"
    using assms by (auto simp: overview_hist_records [OF assms(1)])
  then obtain i c where "(i, c) \<in> set (nonzero_bins (group_values df k m))"
    and "r = \<lparr>h_key = k, h_metric = m, h_bin_idx = i, h_bin_left = bin_left ! i,
                     h_bin_right = bin_right ! i, h_count = c\<rparr>"
    by (auto simp: metric_records_eq)
  then show ?thesis
    by (auto simp: nonzero_bins_iff)
qed

lemma overview_hist_group_sum:
  assumes "build_overview_hist df mc = Inr recs" and "distinct mc" and "m \<in> set mc"
    and "\<not> key_isnull k"
  shows "sum_list (map h_count (filter (\<lambda>r. h_key r = k \<and> h_metric r = m) recs))
         = int (length (filter (\<lambda>v. 0 \<le> v \<and> v \<le> 1000) (group_values df k m)))"
proof -
  let ?M = "\<lambda>k m. metric_records k m (group_values df k m)"
  let ?G = "\<lambda>k. concat (map (?M k) mc)"
  have recs: "recs = concat (map ?G (group_keys df))"
    by (rule overview_hist_records [OF assms(1)])
  have "filter (\<lambda>r. h_key r = k) recs = (if k \<in> set (group_keys df) then ?G k else [])"
    unfolding recs
    by (rule filter_concat_tagged [OF distinct_group_keys]) (auto dest: metric_records_tags)
  moreover have "filter (\<lambda>r. h_metric r = m) (?G k) = (if m \<in> set mc then ?M k m else [])"
    by (rule filter_concat_tagged [OF assms(2)]) (auto dest: metric_records_tags)
  moreover have "filter (\<lambda>r. h_key r = k \<and> h_metric r = m) recs
      = filter (\<lambda>r. h_metric r = m) (filter (\<lambda>r. h_key r = k) recs)"
    by (simp add: conj_commute)
  ultimately have f: "filter (\<lambda>r. h_key r = k \<and> h_metric r = m) recs
      = (if k \<in> set (group_keys df) then ?M k m else [])"
    using assms(3) by simp
  show ?thesis
  proof (cases "k \<in> set (group_keys df)")
    case True
    then show ?thesis using f by (simp add: sum_list_metric_records)
  next
    case False
    then have "k \<notin> group_key ` set (rows df)"
      using assms(4) by (simp add: set_group_keys)
    then have "filter (\<lambda>r. group_key r = k) (rows df) = []"
      by (auto simp: filter_empty_conv)
    then have "group_values df k m = []"
      by (simp add: group_values_def)
    then show ?thesis using f False by simp
  qed
qed

subsection \<open>The rows of the essay histogram\<close>

lemma redacao_records_eq:
  "redacao_records k vs =
     map (\<lambda>(i, c). \<lparr>rh_key = k, rh_bin_idx = i, rh_bin_left = bin_left ! i,
                     rh_bin_right = bin_right ! i, rh_count = c\<rparr>) (nonzero_bins vs)"
  by (cases vs) (simp_all add: redacao_records_def nonzero_bins_Nil)

lemma redacao_records_tag: "r \<in> set (redacao_records k vs) \<Longrightarrow> rh_key r = k"
  by (auto simp: redacao_records_eq)

lemma sum_list_redacao_records:
  "sum_list (map rh_count (redacao_records k vs)) = int (length (filter (\<lambda>v. 0 \<le> v \<and> v \<le> 1000) vs))"
proof -
  have "map rh_count (redacao_records k vs) = map snd (nonzero_bins vs)"
    by (auto simp: redacao_records_eq)
  then show ?thesis by (simp add: sum_list_nonzero_bins)
qed

lemma redacao_hist_records:
  "redacao_hist df =
     concat (map (\<lambda>k. redacao_records k (group_values df k ''NU_NOTA_REDACAO'')) (group_keys df))"
proof -
  let ?groups = "groupby True key_isnull group_key (rows df)"
  let ?G = "\<lambda>(k, sub). redacao_records (group_key (hd sub))
                     (dropna_values (map (\<lambda>r. num_of r ''NU_NOTA_REDACAO'') sub))"
  have "map ?G ?groups
      = map (\<lambda>g. redacao_records (fst g) (group_values df (fst g) ''NU_NOTA_REDACAO'')) ?groups"
  proof (rule map_cong [OF refl])
    fix g assume g: "g \<in> set ?groups"
    obtain k sub where ks: "g = (k, sub)" by (cases g)
    then have "k \<in> group_key ` set (rows df)" and sub: "sub = filter (\<lambda>r. group_key r = k) (rows df)"
      using g by (simp_all add: groupby_True_iff)
    then have "group_key (hd sub) = k" by (simp add: key_hd_group)
    then show "?G g = redacao_records (fst g) (group_values df (fst g) ''NU_NOTA_REDACAO'')"
      by (simp add: ks sub group_values_def)
  qed
  then have "concat (map ?G ?groups)
      = concat (map (\<lambda>g. redacao_records (fst g) (group_values df (fst g) ''NU_NOTA_REDACAO'')) ?groups)"
    by (rule arg_cong)
  also have "\<dots> = concat (map (\<lambda>k. redacao_records k (group_values df k ''NU_NOTA_REDACAO''))
                           (group_keys df))"
    by (simp add: group_keys_def o_def)
  finally show ?thesis
    by (simp add: redacao_hist_def)
qed

lemma redacao_hist_member:
  assumes "q \<in> set (redacao_hist df)"
  shows "\<exists>i. i < 40 \<and> rh_bin_idx q = i \<and> rh_bin_left q = bin_left ! i \<and> rh_bin_right q = bin_right ! i \<and>
             rh_count q = int (length (filter (in_bin i) (group_values df (rh_key q) ''NU_NOTA_REDACAO''))) \<and>
             rh_count q \<noteq> 0"
proof -
  obtain k where "q \<in> set (redacao_records k (group_values df k ''NU_NOTA_REDACAO''))"
    using assms by (auto simp: redacao_hist_records)
  then obtain i c where "(i, c) \<in> set (nonzero_bins (group_values df k ''NU_NOTA_REDACAO''))"
    and "q = \<lparr>rh_key = k, rh_bin_idx = i, rh_bin_left = bin_left ! i,
                     rh_bin_right = bin_right ! i, rh_count = c\<rparr>"
    by (auto simp: redacao_records_eq)
  then show ?thesis
    by (auto simp: nonzero_bins_iff)
qed

lemma redacao_hist_group_sum:
  assumes "\<not> key_isnull k"
  shows "sum_list (map rh_count (filter (\<lambda>r. rh_key r = k) (redacao_hist df)))
         = int (length (filter (\<lambda>v. 0 \<le> v \<and> v \<le> 1000) (group_values df k ''NU_NOTA_REDACAO'')))"
proof -
  let ?R = "\<lambda>k. redacao_records k (group_values df k ''NU_NOTA_REDACAO'')"
  have f: "filter (\<lambda>r. rh_key r = k) (redacao_hist df) = (if k \<in> set (group_keys df) then ?R k else [])"
    unfolding redacao_hist_records
    by (rule filter_concat_tagged [OF distinct_group_keys]) (auto dest: redacao_records_tag)
  show ?thesis
  proof (cases "k \<in> set (group_keys df)")
    case True
    then show ?thesis using f by (simp add: sum_list_redacao_records)
  next
    case False
    then have "k \<notin> group_key ` set (rows df)"
      using assms by (simp add: set_group_keys)
    then have "filter (\<lambda>r. group_key r = k) (rows df) = []"
      by (auto simp: filter_empty_conv)
    then have "group_values df k ''NU_NOTA_REDACAO'' = []"
      by (simp add: group_values_def)
    then show ?thesis using f False by simp
  qed
qed

lemma positive_count:
  assumes "c = int (length (filter P vs))" and "c \<noteq> 0"
  shows "1 \<le> c \<and> vs \<noteq> []"
proof -
  have n: "1 \<le> length (filter P vs)"
    using assms by (cases "filter P vs") auto
  then have "vs \<noteq> []"
    by auto
  moreover have "1 \<le> c"
    using assms(1) n by linarith
  ultimately show ?thesis by simp
qed

subsection \<open>The histograms of a concrete table\<close>

lemma overview_hist_example:
  "build_overview_hist hist_example [''nota_final'', ''NU_NOTA_REDACAO''] = Inr hist_example_rows"
  by code_simp

lemma redacao_hist_example: "redacao_hist hist_example = redacao_example_rows"
  by code_simp

lemma group_values_example:
  "group_values hist_example (Some ''Federal'', Some ''Urbana'', Some ''DF'') ''nota_final'' = [700, 710]"
  "group_values hist_example (Some ''Federal'', Some ''Urbana'', Some ''DF'') ''NU_NOTA_REDACAO'' = [900]"
  "group_values hist_example (Some ''Estadual'', Some ''Urbana'', Some ''DF'') ''NU_NOTA_REDACAO'' = [1000]"
  by code_simp+

text \<open>
  Claim C9.  Every row of the overview histogram and of the essay histogram has a count
  of at least 1, and its group has a non-null value of its metric: a group and metric
  without non-null values has no row.
\<close>

theorem histogram_rows_have_positive_count:
  "(build_overview_hist df metric_cols = Inr recs \<and> r \<in> set recs \<longrightarrow>
      1 \<le> h_count r \<and> group_values df (h_key r) (h_metric r) \<noteq> []) \<and>
   (q \<in> set (redacao_hist df) \<longrightarrow>
      1 \<le> rh_count q \<and> group_values df (rh_key q) ''NU_NOTA_REDACAO'' \<noteq> [])"
proof -
  have 1: "build_overview_hist df metric_cols = Inr recs \<and> r \<in> set recs \<longrightarrow>
      1 \<le> h_count r \<and> group_values df (h_key r) (h_metric r) \<noteq> []"
    using overview_hist_member [of df metric_cols recs r] positive_count by blast
  have 2: "q \<in> set (redacao_hist df) \<longrightarrow>
      1 \<le> rh_count q \<and> group_values df (rh_key q) ''NU_NOTA_REDACAO'' \<noteq> []"
    using redacao_hist_member [of q df] positive_count by blast
  show ?thesis using 1 2 by blast
qed

theorem histogram_positive_count_witness:
  "build_overview_hist hist_example [''nota_final'', ''NU_NOTA_REDACAO''] = Inr hist_example_rows \<and>
   last hist_example_rows \<in> set hist_example_rows \<and>
   1 \<le> h_count (last hist_example_rows) \<and>
   hd redacao_example_rows \<in> set (redacao_hist hist_example) \<and>
   1 \<le> rh_count (hd redacao_example_rows)"
proof -
  have m: "last hist_example_rows \<in> set hist_example_rows"
    by (simp add: hist_example_rows_def)
  have q: "hd redacao_example_rows \<in> set (redacao_hist hist_example)"
    by (simp add: redacao_hist_example) (simp add: redacao_example_rows_def)
  show ?thesis
    using histogram_rows_have_positive_count [of hist_example
        "[''nota_final'', ''NU_NOTA_REDACAO'']" hist_example_rows "last hist_example_rows"
        "hd redacao_example_rows"]
      overview_hist_example m q
    by simp
qed

subsection \<open>Every value in a bin reaches the table\<close>

lemma set_dropna_values: "x \<in> set (dropna_values vs) \<longleftrightarrow> Some x \<in> set vs"
  by (induction vs rule: dropna_values.induct) auto

lemma group_values_member:
  assumes "x \<in> set (rows df)" and "num_of x metric = Some v"
  shows "v \<in> set (group_values df (group_key x) metric)"
proof -
  have "x \<in> set (filter (\<lambda>r. group_key r = group_key x) (rows df))"
    using assms(1) by simp
  then have "Some v \<in> set (map (\<lambda>r. num_of r metric) (filter (\<lambda>r. group_key r = group_key x) (rows df)))"
    using assms(2) by (metis (mono_tags, lifting) image_eqI list.set_map)
  then show ?thesis
    by (simp only: group_values_def set_dropna_values)
qed

lemma require_cols_present:
  "set cols \<subseteq> set (columns df) \<Longrightarrow> require_cols df cols = Inr ()"
proof -
  assume "set cols \<subseteq> set (columns df)"
  then have "find (\<lambda>c. c \<notin> set (columns df)) cols = None"
    by (auto simp: find_None_iff)
  then show ?thesis by (simp add: require_cols_def)
qed

lemma build_overview_hist_total:
  assumes "set group_cols \<subseteq> set (columns df)" and "set metric_cols \<subseteq> set (columns df)"
  shows "\<exists>recs. build_overview_hist df metric_cols = Inr recs"
  using assms by (simp add: build_overview_hist_def require_cols_present Let_def)

lemma overview_hist_emits:
  assumes recs: "build_overview_hist df mc = Inr recs"
    and x: "x \<in> set (rows df)" and k: "\<not> key_isnull (group_key x)"
    and m: "m \<in> set mc" and v: "num_of x m = Some v" and j: "j < 40" and b: "in_bin j v"
  shows "\<lparr>h_key = group_key x, h_metric = m, h_bin_idx = j,
          h_bin_left = 25 * of_nat j, h_bin_right = 25 * of_nat (j + 1),
          h_count = int (length (filter (in_bin j) (group_values df (group_key x) m)))\<rparr> \<in> set recs
         \<and> 1 \<le> int (length (filter (in_bin j) (group_values df (group_key x) m)))"
proof -
  let ?vs = "group_values df (group_key x) m"
  let ?c = "int (length (filter (in_bin j) ?vs))"
  have "v \<in> set (filter (in_bin j) ?vs)"
    using group_values_member [OF x v] b by simp
  then have pos: "1 \<le> ?c"
    by (cases "filter (in_bin j) ?vs") auto
  then have "?c \<noteq> 0"
    by linarith
  then have "(j, ?c) \<in> set (nonzero_bins ?vs)"
    using j unfolding nonzero_bins_iff by blast
  then have "(\<lambda>(i, c). \<lparr>h_key = group_key x, h_metric = m, h_bin_idx = i, h_bin_left = bin_left ! i,
                     h_bin_right = bin_right ! i, h_count = c\<rparr>) (j, ?c)
             \<in> set (metric_records (group_key x) m ?vs)"
    unfolding metric_records_eq set_map by (rule imageI)
  then have "\<lparr>h_key = group_key x, h_metric = m, h_bin_idx = j,
          h_bin_left = 25 * of_nat j, h_bin_right = 25 * of_nat (j + 1), h_count = ?c\<rparr>
      \<in> set (metric_records (group_key x) m ?vs)"
    using j by (simp add: nth_bin_left nth_bin_right)
  moreover have "group_key x \<in> set (group_keys df)"
    using x k by (simp add: set_group_keys)
  ultimately have "\<lparr>h_key = group_key x, h_metric = m, h_bin_idx = j,
          h_bin_left = 25 * of_nat j, h_bin_right = 25 * of_nat (j + 1), h_count = ?c\<rparr> \<in> set recs"
    using m unfolding overview_hist_records [OF recs] by auto
  then show ?thesis using pos by simp
qed

text \<open>
  Claim C5.  The edges are the 41 multiples of 25 from 0 to 1000, so there are 40 bins of
  width 25.  The count of bin \<open>i\<close> is the number of values \<open>v\<close> with
  \<open>25 i \<le> v < 25 (i + 1)\<close>, and the last bin, 39, also counts \<open>v = 1000\<close> (\<open>in_bin\<close>).
  The builder returns a table whenever the dimension and metric columns exist.  Every row
  that it emits has an index below 40, the edges \<open>25 * bin_idx\<close> and \<open>25 * (bin_idx + 1)\<close>,
  and as count the number of non-null values of its metric in its group that lie in its
  bin.  Conversely, a non-null value \<open>v\<close> of a metric in a row that the builder groups (a
  row whose dimension values are not null) that lies in bin \<open>j\<close> is counted there: the
  table has the row of that group, metric and bin, with these edges and that count, which
  is at least 1.
\<close>

theorem forty_bins_of_width_25:
  "bin_edges = map (\<lambda>j. 25 * of_nat j) [0..<41] \<and>
   length (np_histogram vals bin_edges) = 40 \<and>
   (i < 40 \<longrightarrow> np_histogram vals bin_edges ! i = int (length (filter (in_bin i) vals))) \<and>
   (build_overview_hist df metric_cols = Inr recs \<and> r \<in> set recs \<longrightarrow>
      h_bin_idx r < 40 \<and>
      h_bin_left r = 25 * of_nat (h_bin_idx r) \<and>
      h_bin_right r = 25 * of_nat (h_bin_idx r + 1) \<and>
      h_count r = int (length (filter (in_bin (h_bin_idx r))
                                 (group_values df (h_key r) (h_metric r))))) \<and>
   (set group_cols \<subseteq> set (columns df) \<and> set metric_cols \<subseteq> set (columns df) \<longrightarrow>
      (\<exists>out. build_overview_hist df metric_cols = Inr out)) \<and>
   (build_overview_hist df metric_cols = Inr recs \<and> x \<in> set (rows df) \<and>
    \<not> key_isnull (group_key x) \<and> metric \<in> set metric_cols \<and> num_of x metric = Some v \<and>
    j < 40 \<and> in_bin j v \<longrightarrow>
      \<lparr>h_key = group_key x, h_metric = metric, h_bin_idx = j,
       h_bin_left = 25 * of_nat j, h_bin_right = 25 * of_nat (j + 1),
       h_count = int (length (filter (in_bin j) (group_values df (group_key x) metric)))\<rparr>
        \<in> set recs \<and>
      1 \<le> int (length (filter (in_bin j) (group_values df (group_key x) metric))))"
proof -
  have sound: "build_overview_hist df metric_cols = Inr recs \<and> r \<in> set recs \<longrightarrow>
      h_bin_idx r < 40 \<and>
      h_bin_left r = 25 * of_nat (h_bin_idx r) \<and>
      h_bin_right r = 25 * of_nat (h_bin_idx r + 1) \<and>
      h_count r = int (length (filter (in_bin (h_bin_idx r))
                                 (group_values df (h_key r) (h_metric r))))"
  proof
    assume a: "build_overview_hist df metric_cols = Inr recs \<and> r \<in> set recs"
    then obtain i where "i < 40" "h_bin_idx r = i" "h_bin_left r = bin_left ! i"
      "h_bin_right r = bin_right ! i"
      "h_count r = int (length (filter (in_bin i) (group_values df (h_key r) (h_metric r))))"
      using overview_hist_member [of df metric_cols recs r] by blast
    then show "h_bin_idx r < 40 \<and>
      h_bin_left r = 25 * of_nat (h_bin_idx r) \<and>
      h_bin_right r = 25 * of_nat (h_bin_idx r + 1) \<and>
      h_count r = int (length (filter (in_bin (h_bin_idx r))
                                 (group_values df (h_key r) (h_metric r))))"
      by (simp add: nth_bin_left nth_bin_right)
  qed
  have total: "set group_cols \<subseteq> set (columns df) \<and> set metric_cols \<subseteq> set (columns df) \<longrightarrow>
      (\<exists>out. build_overview_hist df metric_cols = Inr out)"
    using build_overview_hist_total [of df metric_cols] by blast
  have complete: "build_overview_hist df metric_cols = Inr recs \<and> x \<in> set (rows df) \<and>
    \<not> key_isnull (group_key x) \<and> metric \<in> set metric_cols \<and> num_of x metric = Some v \<and>
    j < 40 \<and> in_bin j v \<longrightarrow>
      \<lparr>h_key = group_key x, h_metric = metric, h_bin_idx = j,
       h_bin_left = 25 * of_nat j, h_bin_right = 25 * of_nat (j + 1),
       h_count = int (length (filter (in_bin j) (group_values df (group_key x) metric)))\<rparr>
        \<in> set recs \<and>
      1 \<le> int (length (filter (in_bin j) (group_values df (group_key x) metric)))"
    using overview_hist_emits [of df metric_cols recs x metric v j] by blast
  show ?thesis
    using bin_edges_eq length_np_histogram [of vals] nth_np_histogram [of i vals]
      sound total complete by blast
qed

lemma hist_example_first_row:
  "hd (rows hist_example) \<in> set (rows hist_example)"
  "group_key (hd (rows hist_example)) = (Some ''Federal'', Some ''Urbana'', Some ''DF'')"
  "num_of (hd (rows hist_example)) ''nota_final'' = Some 700"
  by (simp_all add: hist_example_def norm_record_def group_key_def)

theorem forty_bins_example_witness:
  "np_histogram [700, 710, 300, 1000] bin_edges ! 39 = 1 \<and>
   build_overview_hist hist_example [''nota_final'', ''NU_NOTA_REDACAO''] = Inr hist_example_rows \<and>
   hd hist_example_rows \<in> set hist_example_rows \<and>
   h_bin_idx (hd hist_example_rows) = 28 \<and>
   h_bin_left (hd hist_example_rows) = 25 * 28 \<and>
   h_bin_right (hd hist_example_rows) = 25 * 29 \<and>
   h_count (hd hist_example_rows) = int (length (filter (in_bin 28) [700, 710])) \<and>
   in_bin 28 700 \<and>
   \<lparr>h_key = (Some ''Federal'', Some ''Urbana'', Some ''DF''), h_metric = ''nota_final'',
    h_bin_idx = 28, h_bin_left = 700, h_bin_right = 725, h_count = 2\<rparr> \<in> set hist_example_rows"
proof -
  have m: "hd hist_example_rows \<in> set hist_example_rows"
    by (simp add: hist_example_rows_def)
  have i: "h_bin_idx (hd hist_example_rows) = 28"
    by (simp add: hist_example_rows_def)
  have k: "h_key (hd hist_example_rows) = (Some ''Federal'', Some ''Urbana'', Some ''DF'')"
    "h_metric (hd hist_example_rows) = ''nota_final''"
    by (simp_all add: hist_example_rows_def)
  have n: "\<not> key_isnull (Some ''Federal'', Some ''Urbana'', Some ''DF'')"
    by (simp add: key_isnull_def)
  have c: "set group_cols \<subseteq> set (columns hist_example)"
    "set [''nota_final'', ''NU_NOTA_REDACAO''] \<subseteq> set (columns hist_example)"
    by (simp_all add: group_cols_def hist_example_def)
  have b: "in_bin 28 700" "(28::nat) < 40"
    by (simp_all add: in_bin_def)
  show ?thesis
    using forty_bins_of_width_25 [of "[700, 710, 300, 1000]" 39 hist_example
        "[''nota_final'', ''NU_NOTA_REDACAO'']" hist_example_rows "hd hist_example_rows"
        "hd (rows hist_example)" "''nota_final''" 700 28]
      overview_hist_example m c b
    by (simp add: i k n hist_example_first_row in_bin_def group_values_example)
qed

subsection \<open>Rows with a null dimension value\<close>

lemma main_enem_code5: "main_enem code5_fs = Inr (code5_stats, code5_hist)"
  by code_simp


lemma normalize_code5_nota_final:
  "bind_e (normalize code5_fs) (\<lambda>df. Inr (map (\<lambda>r. num_of r ''nota_final'') (rows df)))
     = Inr [Some 700, Some 400]"
  by code_simp



text \<open>
  Where the dimension values of a group are not null and its scores are within the scale,
  the counts of its rows add up to the number of its non-null values, in both histograms.
\<close>

lemma histogram_counts_in_scale:
  assumes "\<not> key_isnull k"
  shows "build_overview_hist df metric_cols = Inr recs \<Longrightarrow> distinct metric_cols \<Longrightarrow>
         metric \<in> set metric_cols \<Longrightarrow>
         list_all (\<lambda>v. 0 \<le> v \<and> v \<le> 1000) (group_values df k metric) \<Longrightarrow>
           sum_list (map h_count (filter (\<lambda>r. h_key r = k \<and> h_metric r = metric) recs))
           = int (length (group_values df k metric))"
    and "list_all (\<lambda>v. 0 \<le> v \<and> v \<le> 1000) (group_values df k ''NU_NOTA_REDACAO'') \<Longrightarrow>
           sum_list (map rh_count (filter (\<lambda>r. rh_key r = k) (redacao_hist df)))
           = int (length (group_values df k ''NU_NOTA_REDACAO''))"
  using assms overview_hist_group_sum [of df metric_cols recs metric k]
    redacao_hist_group_sum [of k df]
  by (simp_all add: list_all_iff filter_id_conv)

text \<open>
  Claim C4 at the same input.  The essay statistics, grouped with \<open>dropna=False\<close>, have the
  group of the null network label with \<open>n = 1\<close> and the essay score 400; the essay
  histogram, grouped in the same script with the default \<open>dropna=True\<close>, has no row of that
  group, so its counts add up to 0 and not to 1.  The overview histogram has no row of that
  group either.
\<close>

theorem histograms_drop_null_label_group:
  "main_redacao code5_fs = Inr (code5_redacao_stats, code5_redacao_hist) \<and>
   filter (\<lambda>r. rs_key r = (None, Some ''Urbana'', Some ''DF'')) code5_redacao_stats
     = [\<lparr>rs_key = (None, Some ''Urbana'', Some ''DF''), rs_n = 1,
         sum_redacao = 400, n_zero = 0, n_900mais = 0, media_redacao = 400\<rparr>] \<and>
   filter (\<lambda>r. rh_key r = (None, Some ''Urbana'', Some ''DF'')) code5_redacao_hist = [] \<and>
   bind_e (main_enem code5_fs)
     (\<lambda>(stats, hist). Inr (filter (\<lambda>r. h_key r = (None, Some ''Urbana'', Some ''DF'')) hist))
     = Inr []"
proof -
  have "main_redacao code5_fs = Inr (code5_redacao_stats, code5_redacao_hist)"
    by code_simp
  then show ?thesis
    by (simp add: main_enem_code5 code5_redacao_stats_def code5_redacao_hist_def
        code5_hist_def federal_bin_def)
qed

subsection \<open>Detection of the school columns\<close>








subsection \<open>The school table\<close>













subsection \<open>The long table of the index\<close>







end
